theory Spec2Isabelle
  imports Complex_Main
begin

section \<open>The HR dashboard: data preparation and indicators (app.py)\<close>

text \<open>
  The program is one Python script over pandas. Its logic is \<^verbatim>\<open>prepare_df\<close>
  (lines 104 to 136) and the six indicator functions (lines 180 to 186). A DataFrame is
  modelled column by column, as pandas stores it: an index length and an ordered list of
  named columns, each with a dtype and its cells.

  Idealisations, the same for every statement below:
  \<^item> numbers are reals: float64 rounding, infinities and the int64/float64 distinction
    are not modelled (an integer column is a \<open>Float64\<close> column here);
  \<^item> a missing value is the single cell \<open>Null\<close> (NaN in a numeric or text column, NaT in
    a date column);
  \<^item> strings are byte lists; \<open>strip\<close> and \<open>upper\<close> act on the ASCII range only;
  \<^item> a timestamp carries the three attributes the program reads: its value in
    nanoseconds since the epoch, its year and its month; parsed timestamps are naive
    (no time zone);
  \<^item> what pandas computes from the characters of a string or from a number (parsing a
    date, parsing a number, \<^verbatim>\<open>str()\<close> of a non-string, a number read as a date) is
    a parameter of the model, the record \<open>pandas\<close>; every theorem holds for every such
    library. Parsing is cell by cell.
\<close>

subsection \<open>Data model\<close>

datatype dtype = Object | Float64 | Datetime64

record timestamp =
  ts_value :: int
  ts_year :: int
  ts_month :: int

datatype cell = Null | Str string | Num real | Date timestamp

record series =
  dtype :: dtype
  cells :: "cell list"

record dataframe =
  index_len :: nat
  columns :: "(string \<times> series) list"

datatype error = AttributeError | KeyError | TypeError

record pandas =
  py_str :: "cell \<Rightarrow> string"
  parse_datetime :: "string \<Rightarrow> timestamp option"
  datetime_of_number :: "real \<Rightarrow> timestamp option"
  parse_number :: "string \<Rightarrow> real option"

text \<open>
  \<open>py_str\<close> is Python's \<^verbatim>\<open>str(x)\<close> of a number or a date; \<open>parse_datetime\<close> is the
  parser of \<^verbatim>\<open>pd.to_datetime(..., dayfirst=True)\<close> on one string, \<open>None\<close> when it
  fails; \<open>datetime_of_number\<close> reads a number as nanoseconds since the epoch, \<open>None\<close>
  when out of bounds; \<open>parse_number\<close> is the parser of \<^verbatim>\<open>pd.to_numeric\<close> on one
  string, \<open>None\<close> when it fails.
\<close>

text \<open>The DataFrame invariant: column names are distinct (\<^verbatim>\<open>read_excel\<close> renames a
  repeated header), every column has the length of the index, and the cells of a column
  fit its dtype (a numeric column holds numbers and NaN, a date column dates and NaT, an
  object column anything).\<close>

fun cell_ok :: "dtype \<Rightarrow> cell \<Rightarrow> bool" where
  "cell_ok Object c = True"
| "cell_ok Float64 Null = True"
| "cell_ok Float64 (Num x) = True"
| "cell_ok Float64 c = False"
| "cell_ok Datetime64 Null = True"
| "cell_ok Datetime64 (Date t) = True"
| "cell_ok Datetime64 c = False"

definition series_ok :: "nat \<Rightarrow> series \<Rightarrow> bool" where
  "series_ok n s \<longleftrightarrow> length (cells s) = n \<and> list_all (cell_ok (dtype s)) (cells s)"

definition wf_df :: "dataframe \<Rightarrow> bool" where
  "wf_df df \<longleftrightarrow>
     distinct (map fst (columns df)) \<and>
     list_all (\<lambda>(c, s). series_ok (index_len df) s) (columns df)"

text \<open>\<^verbatim>\<open>c in df.columns\<close>, \<^verbatim>\<open>df[c]\<close> and \<^verbatim>\<open>df[c] = s\<close>: an assignment replaces
  the column in place when the name exists and appends it otherwise.\<close>

definition has_column :: "dataframe \<Rightarrow> string \<Rightarrow> bool" where
  "has_column df c \<longleftrightarrow> c \<in> set (map fst (columns df))"

definition getitem :: "dataframe \<Rightarrow> string \<Rightarrow> series option" where
  "getitem df c = map_of (columns df) c"

fun assign :: "string \<Rightarrow> series \<Rightarrow> (string \<times> series) list \<Rightarrow> (string \<times> series) list" where
  "assign c s [] = [(c, s)]"
| "assign c s ((c', s') # cs) = (if c' = c then (c, s) # cs else (c', s') # assign c s cs)"

definition setitem :: "dataframe \<Rightarrow> string \<Rightarrow> series \<Rightarrow> dataframe" where
  "setitem df c s = df\<lparr>columns := assign c s (columns df)\<rparr>"

text \<open>\<^verbatim>\<open>df[c] = v\<close> for a scalar \<open>v\<close>: the value is repeated along the index.\<close>

definition broadcast :: "dataframe \<Rightarrow> dtype \<Rightarrow> cell \<Rightarrow> series" where
  "broadcast df t v = \<lparr>dtype = t, cells = replicate (index_len df) v\<rparr>"

subsection \<open>Strings\<close>

definition isspace :: "char \<Rightarrow> bool" where
  "isspace c \<longleftrightarrow> (let n = (of_char c :: nat) in (9 \<le> n \<and> n \<le> 13) \<or> (28 \<le> n \<and> n \<le> 32))"

definition strip :: "string \<Rightarrow> string" where
  "strip s = rev (dropWhile isspace (rev (dropWhile isspace s)))"

definition upper_char :: "char \<Rightarrow> char" where
  "upper_char c = (let n = (of_char c :: nat) in if 97 \<le> n \<and> n \<le> 122 then char_of (n - 32) else c)"

definition upper :: "string \<Rightarrow> string" where
  "upper s = map upper_char s"

subsection \<open>Step 1 (lines 105 to 106): trim every object column\<close>

text \<open>\<^verbatim>\<open>astype(str)\<close> turns every cell of the column into a string: a string stays, a
  missing cell (NaN) becomes the string \<^verbatim>\<open>nan\<close>, anything else is \<^verbatim>\<open>str(x)\<close>.\<close>

fun astype_str :: "pandas \<Rightarrow> cell \<Rightarrow> string" where
  "astype_str L (Str s) = s"
| "astype_str L Null = ''nan''"
| "astype_str L c = py_str L c"

definition trim_series :: "pandas \<Rightarrow> series \<Rightarrow> series" where
  "trim_series L s = \<lparr>dtype = Object, cells = map (\<lambda>c. Str (strip (astype_str L c))) (cells s)\<rparr>"

definition object_columns :: "dataframe \<Rightarrow> string list" where
  "object_columns df = map fst (filter (\<lambda>(c, s). dtype s = Object) (columns df))"

definition trim_column :: "pandas \<Rightarrow> string \<Rightarrow> dataframe \<Rightarrow> dataframe" where
  "trim_column L c df = (case getitem df c of None \<Rightarrow> df | Some s \<Rightarrow> setitem df c (trim_series L s))"

definition trim_object_columns :: "pandas \<Rightarrow> dataframe \<Rightarrow> dataframe" where
  "trim_object_columns L df = fold (trim_column L) (object_columns df) df"

subsection \<open>Step 2 (lines 108 to 110): parse the date columns\<close>

definition DATE_COLS :: "string list" where
  "DATE_COLS = [''Data de Nascimento'', ''Data de Contratacao'', ''Data de Demissao'']"

text \<open>\<^verbatim>\<open>errors="coerce"\<close>: whatever does not give a date becomes NaT.\<close>

fun to_datetime_cell :: "pandas \<Rightarrow> cell \<Rightarrow> cell" where
  "to_datetime_cell L Null = Null"
| "to_datetime_cell L (Date t) = Date t"
| "to_datetime_cell L (Str s) = (case parse_datetime L s of None \<Rightarrow> Null | Some t \<Rightarrow> Date t)"
| "to_datetime_cell L (Num x) = (case datetime_of_number L x of None \<Rightarrow> Null | Some t \<Rightarrow> Date t)"

definition to_datetime :: "pandas \<Rightarrow> series \<Rightarrow> series" where
  "to_datetime L s = \<lparr>dtype = Datetime64, cells = map (to_datetime_cell L) (cells s)\<rparr>"

definition parse_date_column :: "pandas \<Rightarrow> string \<Rightarrow> dataframe \<Rightarrow> dataframe" where
  "parse_date_column L c df = (case getitem df c of None \<Rightarrow> df | Some s \<Rightarrow> setitem df c (to_datetime L s))"

definition parse_dates :: "pandas \<Rightarrow> dataframe \<Rightarrow> dataframe" where
  "parse_dates L df = fold (parse_date_column L) DATE_COLS df"

subsection \<open>Step 3 (lines 112 to 113): the sex code\<close>

text \<open>The \<^verbatim>\<open>.str\<close> accessor exists on a text column only: on a numeric or date column
  (a sex column that is all blank is read as float64) pandas raises AttributeError.
  \<^verbatim>\<open>.str.upper()\<close> gives NaN for a cell that is not a string.\<close>

definition str_accessor :: "series \<Rightarrow> error + series" where
  "str_accessor s = (if dtype s = Object then Inr s else Inl AttributeError)"

fun str_upper_cell :: "cell \<Rightarrow> cell" where
  "str_upper_cell (Str s) = Str (upper s)"
| "str_upper_cell c = Null"

fun replace_cell :: "cell \<Rightarrow> cell" where
  "replace_cell (Str s) =
     (if s = ''MASCULINO'' then Str ''M'' else if s = ''FEMININO'' then Str ''F'' else Str s)"
| "replace_cell c = c"

definition canon_cell :: "cell \<Rightarrow> cell" where
  "canon_cell c = replace_cell (str_upper_cell c)"

definition canon_sexo :: "series \<Rightarrow> error + series" where
  "canon_sexo s =
     (case str_accessor s of
        Inl e \<Rightarrow> Inl e
      | Inr s' \<Rightarrow> Inr \<lparr>dtype = Object, cells = map canon_cell (cells s')\<rparr>)"

definition canonicalize_sexo :: "dataframe \<Rightarrow> error + dataframe" where
  "canonicalize_sexo df =
     (case getitem df ''Sexo'' of
        None \<Rightarrow> Inr df
      | Some s \<Rightarrow> (case canon_sexo s of Inl e \<Rightarrow> Inl e | Inr s' \<Rightarrow> Inr (setitem df ''Sexo'' s')))"

subsection \<open>Step 4 (lines 115 to 118): the five monetary columns\<close>

definition MONEY_COLS :: "string list" where
  "MONEY_COLS = [''Salario Base'', ''Impostos'', ''Beneficios'', ''VT'', ''VR'']"

text \<open>\<^verbatim>\<open>pd.to_numeric(..., errors="coerce")\<close>: a numeric column is returned as it is; a
  date column is viewed as int64 nanoseconds, so that NaT becomes the least int64; the
  cells of an object column are converted one by one, NaN where that fails. (After
  step 1 an object column holds strings only.)\<close>

fun to_numeric_cell :: "pandas \<Rightarrow> cell \<Rightarrow> cell" where
  "to_numeric_cell L Null = Null"
| "to_numeric_cell L (Num x) = Num x"
| "to_numeric_cell L (Str s) = (case parse_number L s of None \<Rightarrow> Null | Some x \<Rightarrow> Num x)"
| "to_numeric_cell L (Date t) = Null"

fun view_int64 :: "cell \<Rightarrow> cell" where
  "view_int64 (Date t) = Num (of_int (ts_value t))"
| "view_int64 Null = Num (- 9223372036854775808)"
| "view_int64 c = c"

definition to_numeric :: "pandas \<Rightarrow> series \<Rightarrow> series" where
  "to_numeric L s =
     (case dtype s of
        Float64 \<Rightarrow> s
      | Datetime64 \<Rightarrow> \<lparr>dtype = Float64, cells = map view_int64 (cells s)\<rparr>
      | Object \<Rightarrow> \<lparr>dtype = Float64, cells = map (to_numeric_cell L) (cells s)\<rparr>)"

fun fillna_cell :: "real \<Rightarrow> cell \<Rightarrow> cell" where
  "fillna_cell v Null = Num v"
| "fillna_cell v c = c"

definition fillna :: "real \<Rightarrow> series \<Rightarrow> series" where
  "fillna v s = s\<lparr>cells := map (fillna_cell v) (cells s)\<rparr>"

definition coerce_money :: "pandas \<Rightarrow> string \<Rightarrow> dataframe \<Rightarrow> dataframe" where
  "coerce_money L col df =
     (let df1 = (if \<not> has_column df col then setitem df col (broadcast df Float64 (Num 0)) else df)
      in case getitem df1 col of
           None \<Rightarrow> df1
         | Some s \<Rightarrow> setitem df1 col (fillna 0 (to_numeric L s)))"

definition coerce_money_columns :: "pandas \<Rightarrow> dataframe \<Rightarrow> dataframe" where
  "coerce_money_columns L df = fold (coerce_money L) MONEY_COLS df"

subsection \<open>Steps 5 and 6 (lines 120 to 128): age and tenure\<close>

definition NS_PER_DAY :: int where
  "NS_PER_DAY = 86400000000000"

text \<open>\<^verbatim>\<open>(today - col).dt.days\<close>: the whole days of the difference, rounded down;
  NaT gives NaN, which \<^verbatim>\<open>// 365\<close> and \<^verbatim>\<open>clip(lower=0)\<close> keep.\<close>

fun dt_days :: "timestamp \<Rightarrow> cell \<Rightarrow> int option" where
  "dt_days today (Date t) = Some ((ts_value today - ts_value t) div NS_PER_DAY)"
| "dt_days today c = None"

definition clip_lower :: "int \<Rightarrow> int option \<Rightarrow> cell" where
  "clip_lower lo v = (case v of None \<Rightarrow> Null | Some n \<Rightarrow> Num (of_int (max lo n)))"

definition idade_cell :: "timestamp \<Rightarrow> cell \<Rightarrow> cell" where
  "idade_cell today c = clip_lower 0 (map_option (\<lambda>d. d div 365) (dt_days today c))"

definition compute_idade :: "timestamp \<Rightarrow> dataframe \<Rightarrow> dataframe" where
  "compute_idade today df =
     (case getitem df ''Data de Nascimento'' of
        None \<Rightarrow> df
      | Some s \<Rightarrow> setitem df ''Idade'' \<lparr>dtype = Float64, cells = map (idade_cell today) (cells s)\<rparr>)"

fun meses :: "timestamp \<Rightarrow> cell \<Rightarrow> int option" where
  "meses today (Date t) = Some ((ts_year today - ts_year t) * 12 + (ts_month today - ts_month t))"
| "meses today c = None"

definition tempo_cell :: "timestamp \<Rightarrow> cell \<Rightarrow> cell" where
  "tempo_cell today c = clip_lower 0 (meses today c)"

definition compute_tempo_de_casa :: "timestamp \<Rightarrow> dataframe \<Rightarrow> dataframe" where
  "compute_tempo_de_casa today df =
     (case getitem df ''Data de Contratacao'' of
        None \<Rightarrow> df
      | Some s \<Rightarrow> setitem df ''Tempo de Casa (meses)''
                   \<lparr>dtype = Float64, cells = map (tempo_cell today) (cells s)\<rparr>)"

subsection \<open>Step 7 (lines 130 to 133): status\<close>

definition notna :: "cell \<Rightarrow> bool" where
  "notna c \<longleftrightarrow> c \<noteq> Null"

definition status_cell :: "cell \<Rightarrow> cell" where
  "status_cell c = (if notna c then Str ''Desligado'' else Str ''Ativo'')"

definition compute_status :: "dataframe \<Rightarrow> dataframe" where
  "compute_status df =
     (case getitem df ''Data de Demissao'' of
        Some s \<Rightarrow> setitem df ''Status'' \<lparr>dtype = Object, cells = map status_cell (cells s)\<rparr>
      | None \<Rightarrow> setitem df ''Status'' (broadcast df Object (Str ''Ativo'')))"

subsection \<open>Step 8 (line 135): total monthly cost\<close>

text \<open>\<^verbatim>\<open>df[[...]]\<close> raises KeyError when a name is missing; \<^verbatim>\<open>sum(axis=1)\<close> adds the
  columns row by row, a missing value counting as 0.\<close>

fun select_columns :: "dataframe \<Rightarrow> string list \<Rightarrow> error + series list" where
  "select_columns df [] = Inr []"
| "select_columns df (c # cs) =
     (case getitem df c of
        None \<Rightarrow> Inl KeyError
      | Some s \<Rightarrow> (case select_columns df cs of Inl e \<Rightarrow> Inl e | Inr ss \<Rightarrow> Inr (s # ss)))"

fun skipna_value :: "cell \<Rightarrow> real" where
  "skipna_value (Num x) = x"
| "skipna_value c = 0"

definition add_column :: "real list \<Rightarrow> series \<Rightarrow> real list" where
  "add_column acc s = map (\<lambda>(a, c). a + skipna_value c) (zip acc (cells s))"

definition sum_axis1 :: "nat \<Rightarrow> series list \<Rightarrow> series" where
  "sum_axis1 n ss = \<lparr>dtype = Float64, cells = map Num (foldl add_column (replicate n 0) ss)\<rparr>"

definition compute_custo_total :: "dataframe \<Rightarrow> error + dataframe" where
  "compute_custo_total df =
     (case select_columns df MONEY_COLS of
        Inl e \<Rightarrow> Inl e
      | Inr ss \<Rightarrow> Inr (setitem df ''Custo Total Mensal'' (sum_axis1 (index_len df) ss)))"

subsection \<open>prepare_df (lines 104 to 136)\<close>

text \<open>\<open>today\<close> is \<^verbatim>\<open>pd.Timestamp(date.today())\<close>, a parameter here.\<close>

definition prepare_df :: "pandas \<Rightarrow> timestamp \<Rightarrow> dataframe \<Rightarrow> error + dataframe" where
  "prepare_df L today df =
     (case canonicalize_sexo (parse_dates L (trim_object_columns L df)) of
        Inl e \<Rightarrow> Inl e
      | Inr df3 \<Rightarrow>
          compute_custo_total
            (compute_status
              (compute_tempo_de_casa today
                (compute_idade today
                  (coerce_money_columns L df3)))))"

subsection \<open>The indicators (lines 180 to 186)\<close>

text \<open>A sum or a mean skips missing values; the mean of no value is NaN, here \<open>None\<close>.
  On text or dates pandas does not give a number (it raises, or concatenates the
  strings); \<open>prepare_df\<close> never leaves such a column to these functions, and the model
  returns TypeError there.\<close>

fun is_number_or_null :: "cell \<Rightarrow> bool" where
  "is_number_or_null Null = True"
| "is_number_or_null (Num x) = True"
| "is_number_or_null c = False"

definition series_sum :: "series \<Rightarrow> error + real" where
  "series_sum s =
     (if list_all is_number_or_null (cells s) then Inr (sum_list (map skipna_value (cells s)))
      else Inl TypeError)"

definition series_mean :: "series \<Rightarrow> error + real option" where
  "series_mean s =
     (if list_all is_number_or_null (cells s)
      then (let xs = filter notna (cells s)
            in if xs = [] then Inr None
               else Inr (Some (sum_list (map skipna_value xs) / real (length xs))))
      else Inl TypeError)"

definition eq_mask :: "series \<Rightarrow> string \<Rightarrow> bool list" where
  "eq_mask s v = map (\<lambda>c. c = Str v) (cells s)"

definition loc :: "bool list \<Rightarrow> series \<Rightarrow> series" where
  "loc sel s = s\<lparr>cells := map snd (filter fst (zip sel (cells s)))\<rparr>"

definition mask_sum :: "bool list \<Rightarrow> int" where
  "mask_sum sel = int (length (filter id sel))"

definition k_headcount_ativo :: "dataframe \<Rightarrow> error + int" where
  "k_headcount_ativo d =
     (case getitem d ''Status'' of
        None \<Rightarrow> Inl KeyError
      | Some st \<Rightarrow> Inr (mask_sum (eq_mask st ''Ativo'')))"

definition k_desligados :: "dataframe \<Rightarrow> error + int" where
  "k_desligados d =
     (case getitem d ''Status'' of
        None \<Rightarrow> Inl KeyError
      | Some st \<Rightarrow> Inr (mask_sum (eq_mask st ''Desligado'')))"

definition k_folha :: "dataframe \<Rightarrow> error + real" where
  "k_folha d =
     (case getitem d ''Status'' of
        None \<Rightarrow> Inl KeyError
      | Some st \<Rightarrow>
          (case getitem d ''Salario Base'' of
             None \<Rightarrow> Inl KeyError
           | Some sal \<Rightarrow> series_sum (loc (eq_mask st ''Ativo'') sal)))"

definition k_custo_total :: "dataframe \<Rightarrow> error + real" where
  "k_custo_total d =
     (case getitem d ''Status'' of
        None \<Rightarrow> Inl KeyError
      | Some st \<Rightarrow>
          (case getitem d ''Custo Total Mensal'' of
             None \<Rightarrow> Inl KeyError
           | Some cost \<Rightarrow> series_sum (loc (eq_mask st ''Ativo'') cost)))"

definition k_idade_media :: "dataframe \<Rightarrow> error + real option" where
  "k_idade_media d =
     (case getitem d ''Idade'' of
        Some s \<Rightarrow> series_mean s
      | None \<Rightarrow> Inr (Some 0))"

definition AVALIACAO :: string where
  "AVALIACAO = ''Avalia'' @ [CHR 0xC3, CHR 0xA7, CHR 0xC3, CHR 0xA3] @ ''o do Funcion''
                 @ [CHR 0xC3, CHR 0xA1] @ ''rio''"

definition k_avaliacao_media :: "dataframe \<Rightarrow> error + real option" where
  "k_avaliacao_media d =
     (case getitem d AVALIACAO of
        Some s \<Rightarrow> series_mean s
      | None \<Rightarrow> Inr (Some 0))"

subsection \<open>Descriptions used in the proofs\<close>

text \<open>These definitions are not in the program: they name what the proofs below
  establish about it.\<close>

text \<open>The body shared by the iterations of steps 1 and 2: replace a column, when the
  table has it, by its image under \<open>f\<close>.\<close>

definition update_column :: "(series \<Rightarrow> series) \<Rightarrow> string \<Rightarrow> dataframe \<Rightarrow> dataframe" where
  "update_column f c df = (case getitem df c of None \<Rightarrow> df | Some s \<Rightarrow> setitem df c (f s))"

text \<open>A column after step 1: trimmed when it is an object column, as it was otherwise.\<close>

definition trimmed :: "pandas \<Rightarrow> series \<Rightarrow> series" where
  "trimmed L s = (if dtype s = Object then trim_series L s else s)"

text \<open>A monetary column after step 4, from the column before it (\<open>None\<close> when the table
  does not have it) and the length of the index.\<close>

definition money_series :: "pandas \<Rightarrow> nat \<Rightarrow> series option \<Rightarrow> series" where
  "money_series L n so =
     fillna 0 (to_numeric L (case so of None \<Rightarrow> \<lparr>dtype = Float64, cells = replicate n (Num 0)\<rparr> | Some s \<Rightarrow> s))"

text \<open>The sex column after step 3, when \<^verbatim>\<open>.str\<close> does not raise.\<close>

definition canon_series :: "series \<Rightarrow> series" where
  "canon_series s = \<lparr>dtype = Object, cells = map canon_cell (cells s)\<rparr>"

text \<open>The table after step 4 and the table that \<open>prepare_df\<close> returns, column by column,
  from the raw table.\<close>

definition stage4 :: "pandas \<Rightarrow> dataframe \<Rightarrow> string \<Rightarrow> series option" where
  "stage4 L df c =
     (if c \<in> set MONEY_COLS
        then Some (money_series L (index_len df) (map_option (trimmed L) (getitem df c)))
      else if c = ''Sexo'' then map_option (\<lambda>s. canon_series (trimmed L s)) (getitem df c)
      else if c \<in> set DATE_COLS then map_option (\<lambda>s. to_datetime L (trimmed L s)) (getitem df c)
      else map_option (trimmed L) (getitem df c))"

definition prepared_column :: "pandas \<Rightarrow> timestamp \<Rightarrow> dataframe \<Rightarrow> string \<Rightarrow> series option" where
  "prepared_column L today df c =
     (if c = ''Custo Total Mensal''
        then Some (sum_axis1 (index_len df)
               (map (\<lambda>m. money_series L (index_len df) (map_option (trimmed L) (getitem df m))) MONEY_COLS))
      else if c = ''Status''
        then Some (case stage4 L df ''Data de Demissao'' of
                     Some s \<Rightarrow> \<lparr>dtype = Object, cells = map status_cell (cells s)\<rparr>
                   | None \<Rightarrow> \<lparr>dtype = Object, cells = replicate (index_len df) (Str ''Ativo'')\<rparr>)
      else if c = ''Tempo de Casa (meses)'' \<and> getitem df ''Data de Contratacao'' \<noteq> None
        then map_option (\<lambda>s. \<lparr>dtype = Float64, cells = map (tempo_cell today) (cells s)\<rparr>)
               (stage4 L df ''Data de Contratacao'')
      else if c = ''Idade'' \<and> getitem df ''Data de Nascimento'' \<noteq> None
        then map_option (\<lambda>s. \<lparr>dtype = Float64, cells = map (idade_cell today) (cells s)\<rparr>)
               (stage4 L df ''Data de Nascimento'')
      else stage4 L df c)"

subsection \<open>Sample inputs\<close>

text \<open>A small library, a date and a table on which the statements are evaluated. The
  library parses the three dates and the two numbers of the table and nothing else;
  \<open>sample_today\<close> is 15 June 2025. \<open>sample_prepared\<close> is the table that \<open>prepare_df\<close> returns
  on \<open>sample_df\<close> (lemma \<open>prepare_sample_df\<close>).\<close>

definition sample_pandas :: pandas where
  "sample_pandas =
     \<lparr>py_str = (\<lambda>c. ''?''),
      parse_datetime = (\<lambda>s.
        if s = ''15/03/1990'' then Some \<lparr>ts_value = 637459200000000000, ts_year = 1990, ts_month = 3\<rparr>
        else if s = ''01/01/2020'' then Some \<lparr>ts_value = 1577836800000000000, ts_year = 2020, ts_month = 1\<rparr>
        else if s = ''01/01/2030'' then Some \<lparr>ts_value = 1893456000000000000, ts_year = 2030, ts_month = 1\<rparr>
        else None),
      datetime_of_number = (\<lambda>x. None),
      parse_number = (\<lambda>s. if s = ''5000'' then Some 5000 else if s = ''1200.5'' then Some 1200.5 else None)\<rparr>"

definition sample_today :: timestamp where
  "sample_today = \<lparr>ts_value = 1749945600000000000, ts_year = 2025, ts_month = 6\<rparr>"

definition sample_df :: dataframe where
  "sample_df =
     \<lparr>index_len = 3,
      columns =
        [(''Nome'', \<lparr>dtype = Object, cells = [Str '' Ana '', Str ''Rui'', Null]\<rparr>),
         (''Sexo'', \<lparr>dtype = Object, cells = [Str ''feminino'', Str ''Outro'', Str ''M'']\<rparr>),
         (''Data de Nascimento'', \<lparr>dtype = Object, cells = [Str ''15/03/1990'', Str ''not-a-date'', Str ''01/01/2030'']\<rparr>),
         (''Data de Contratacao'', \<lparr>dtype = Object, cells = [Str ''01/01/2020'', Str '''', Str ''01/01/2030'']\<rparr>),
         (''Data de Demissao'', \<lparr>dtype = Object, cells = [Null, Str ''01/01/2020'', Str ''not-a-date'']\<rparr>),
         (''Salario Base'', \<lparr>dtype = Object, cells = [Str ''5000'', Str ''abc'', Str ''1200.5'']\<rparr>),
         (''VT'', \<lparr>dtype = Float64, cells = [Num 100, Null, Num 50]\<rparr>),
         (''Matricula'', \<lparr>dtype = Float64, cells = [Num 1, Num 2, Null]\<rparr>)]\<rparr>"

definition sample_prepared :: dataframe where
  "sample_prepared =
     \<lparr>index_len = 3,
      columns =
        [(''Nome'', \<lparr>dtype = Object, cells = [Str ''Ana'', Str ''Rui'', Str ''nan'']\<rparr>),
         (''Sexo'', \<lparr>dtype = Object, cells = [Str ''F'', Str ''OUTRO'', Str ''M'']\<rparr>),
         (''Data de Nascimento'', \<lparr>dtype = Datetime64, cells =
            [Date \<lparr>ts_value = 637459200000000000, ts_year = 1990, ts_month = 3\<rparr>, Null,
             Date \<lparr>ts_value = 1893456000000000000, ts_year = 2030, ts_month = 1\<rparr>]\<rparr>),
         (''Data de Contratacao'', \<lparr>dtype = Datetime64, cells =
            [Date \<lparr>ts_value = 1577836800000000000, ts_year = 2020, ts_month = 1\<rparr>, Null,
             Date \<lparr>ts_value = 1893456000000000000, ts_year = 2030, ts_month = 1\<rparr>]\<rparr>),
         (''Data de Demissao'', \<lparr>dtype = Datetime64, cells =
            [Null, Date \<lparr>ts_value = 1577836800000000000, ts_year = 2020, ts_month = 1\<rparr>, Null]\<rparr>),
         (''Salario Base'', \<lparr>dtype = Float64, cells = [Num 5000, Num 0, Num 1200.5]\<rparr>),
         (''VT'', \<lparr>dtype = Float64, cells = [Num 100, Num 0, Num 50]\<rparr>),
         (''Matricula'', \<lparr>dtype = Float64, cells = [Num 1, Num 2, Null]\<rparr>),
         (''Impostos'', \<lparr>dtype = Float64, cells = [Num 0, Num 0, Num 0]\<rparr>),
         (''Beneficios'', \<lparr>dtype = Float64, cells = [Num 0, Num 0, Num 0]\<rparr>),
         (''VR'', \<lparr>dtype = Float64, cells = [Num 0, Num 0, Num 0]\<rparr>),
         (''Idade'', \<lparr>dtype = Float64, cells = [Num 35, Null, Num 0]\<rparr>),
         (''Tempo de Casa (meses)'', \<lparr>dtype = Float64, cells = [Num 65, Null, Num 0]\<rparr>),
         (''Status'', \<lparr>dtype = Object, cells = [Str ''Ativo'', Str ''Desligado'', Str ''Ativo'']\<rparr>),
         (''Custo Total Mensal'', \<lparr>dtype = Float64, cells = [Num 5100, Num 0, Num 1250.5]\<rparr>)]\<rparr>"

text \<open>A table of one record whose sex cell is blank (the column is then read as
  float64), and a table of zero records with the birth-date column, as read from a sheet
  that holds its header row only.\<close>

definition blank_sexo_df :: dataframe where
  "blank_sexo_df =
     \<lparr>index_len = 1,
      columns =
        [(''Nome'', \<lparr>dtype = Object, cells = [Str ''Ana'']\<rparr>),
         (''Sexo'', \<lparr>dtype = Float64, cells = [Null]\<rparr>)]\<rparr>"

definition header_only_df :: dataframe where
  "header_only_df =
     \<lparr>index_len = 0, columns = [(''Data de Nascimento'', \<lparr>dtype = Object, cells = []\<rparr>)]\<rparr>"



definition passthrough_df :: dataframe where
  "passthrough_df =
     \<lparr>index_len = 1,
      columns =
        [(''Nome'', \<lparr>dtype = Object, cells = [Str '' Ana '']\<rparr>),
         (''Status'', \<lparr>dtype = Object, cells = [Str ''Ferias'']\<rparr>),
         (''Idade'', \<lparr>dtype = Float64, cells = [Num 41]\<rparr>),
         (''Data de Contratacao'', \<lparr>dtype = Object, cells = [Str ''01/01/2020'']\<rparr>),
         (''Tempo de Casa (meses)'', \<lparr>dtype = Float64, cells = [Num 3]\<rparr>),
         (''Custo Total Mensal'', \<lparr>dtype = Float64, cells = [Num 7]\<rparr>)]\<rparr>"

definition passthrough_prepared :: dataframe where
  "passthrough_prepared =
     \<lparr>index_len = 1,
      columns =
        [(''Nome'', \<lparr>dtype = Object, cells = [Str ''Ana'']\<rparr>),
         (''Status'', \<lparr>dtype = Object, cells = [Str ''Ativo'']\<rparr>),
         (''Idade'', \<lparr>dtype = Float64, cells = [Num 41]\<rparr>),
         (''Data de Contratacao'', \<lparr>dtype = Datetime64, cells =
            [Date \<lparr>ts_value = 1577836800000000000, ts_year = 2020, ts_month = 1\<rparr>]\<rparr>),
         (''Tempo de Casa (meses)'', \<lparr>dtype = Float64, cells = [Num 65]\<rparr>),
         (''Custo Total Mensal'', \<lparr>dtype = Float64, cells = [Num 0]\<rparr>),
         (''Salario Base'', \<lparr>dtype = Float64, cells = [Num 0]\<rparr>),
         (''Impostos'', \<lparr>dtype = Float64, cells = [Num 0]\<rparr>),
         (''Beneficios'', \<lparr>dtype = Float64, cells = [Num 0]\<rparr>),
         (''VT'', \<lparr>dtype = Float64, cells = [Num 0]\<rparr>),
         (''VR'', \<lparr>dtype = Float64, cells = [Num 0]\<rparr>)]\<rparr>"

section \<open>Properties\<close>

subsection \<open>Columns through the steps\<close>

lemma map_of_assign: "map_of (assign c s cs) c' = (if c' = c then Some s else map_of cs c')"
  by (induction cs) auto

lemma getitem_setitem: "getitem (setitem df c s) c' = (if c' = c then Some s else getitem df c')"
  by (simp add: getitem_def setitem_def map_of_assign)

lemma index_len_setitem: "index_len (setitem df c s) = index_len df"
  by (simp add: setitem_def)

lemma has_column_getitem: "has_column df c \<longleftrightarrow> getitem df c \<noteq> None"
  by (simp add: has_column_def getitem_def map_of_eq_None_iff)

lemma getitem_update_column:
  "getitem (update_column f c df) c' = (if c' = c then map_option f (getitem df c) else getitem df c')"
  by (auto simp: update_column_def getitem_setitem split: option.splits)

lemma index_len_update_column: "index_len (update_column f c df) = index_len df"
  by (simp add: update_column_def index_len_setitem split: option.splits)

lemma getitem_fold_update_column:
  "distinct cs \<Longrightarrow>
   getitem (fold (update_column f) cs df) c =
     (if c \<in> set cs then map_option f (getitem df c) else getitem df c)"
proof (induction cs arbitrary: df)
  case Nil
  then show ?case by simp
next
  case (Cons a cs)
  then show ?case by (auto simp: getitem_update_column)
qed

lemma index_len_fold_update_column: "index_len (fold (update_column f) cs df) = index_len df"
  by (induction cs arbitrary: df) (simp_all add: index_len_update_column)

lemma trim_column_update: "trim_column L = update_column (trim_series L)"
  by (intro ext) (simp add: trim_column_def update_column_def)

lemma parse_date_column_update: "parse_date_column L = update_column (to_datetime L)"
  by (intro ext) (simp add: parse_date_column_def update_column_def)

lemma distinct_object_columns: "distinct (map fst (columns df)) \<Longrightarrow> distinct (object_columns df)"
  by (simp add: object_columns_def distinct_map_filter)

lemma in_object_columns:
  "distinct (map fst (columns df)) \<Longrightarrow>
   c \<in> set (object_columns df) \<longleftrightarrow> (\<exists>s. getitem df c = Some s \<and> dtype s = Object)"
  by (auto simp: object_columns_def getitem_def image_iff)

lemma getitem_trim_object_columns:
  "distinct (map fst (columns df)) \<Longrightarrow>
   getitem (trim_object_columns L df) c = map_option (trimmed L) (getitem df c)"
  by (cases "getitem df c")
     (auto simp: trim_object_columns_def trim_column_update getitem_fold_update_column
        distinct_object_columns in_object_columns trimmed_def)

lemma index_len_trim_object_columns: "index_len (trim_object_columns L df) = index_len df"
  by (simp add: trim_object_columns_def trim_column_update index_len_fold_update_column)

lemma getitem_parse_dates:
  "getitem (parse_dates L df) c =
     (if c \<in> set DATE_COLS then map_option (to_datetime L) (getitem df c) else getitem df c)"
proof -
  have "distinct DATE_COLS" by (simp add: DATE_COLS_def)
  then show ?thesis
    unfolding parse_dates_def parse_date_column_update by (rule getitem_fold_update_column)
qed

lemma index_len_parse_dates: "index_len (parse_dates L df) = index_len df"
  by (simp add: parse_dates_def parse_date_column_update index_len_fold_update_column)

lemma wf_df_length: "wf_df df \<Longrightarrow> getitem df c = Some s \<Longrightarrow> length (cells s) = index_len df"
  by (auto simp: wf_df_def series_ok_def getitem_def list_all_iff dest!: map_of_SomeD)

lemma wf_df_cell_ok: "wf_df df \<Longrightarrow> getitem df c = Some s \<Longrightarrow> list_all (cell_ok (dtype s)) (cells s)"
  by (auto simp: wf_df_def series_ok_def getitem_def list_all_iff dest!: map_of_SomeD)

lemma wf_df_distinct: "wf_df df \<Longrightarrow> distinct (map fst (columns df))"
  by (simp add: wf_df_def)

lemma length_trimmed: "length (cells (trimmed L s)) = length (cells s)"
  by (simp add: trimmed_def trim_series_def)

lemma length_to_datetime: "length (cells (to_datetime L s)) = length (cells s)"
  by (simp add: to_datetime_def)

lemma length_to_numeric: "length (cells (to_numeric L s)) = length (cells s)"
  by (simp add: to_numeric_def split: dtype.splits)

lemma length_money_series:
  "length (cells (money_series L n so)) = (case so of None \<Rightarrow> n | Some s \<Rightarrow> length (cells s))"
  by (simp add: money_series_def fillna_def length_to_numeric split: option.splits)

lemma canonicalize_sexo_Inr:
  assumes "canonicalize_sexo df = Inr df'"
  shows "getitem df' c =
           (if c = ''Sexo''
            then map_option (\<lambda>s. \<lparr>dtype = Object, cells = map canon_cell (cells s)\<rparr>) (getitem df ''Sexo'')
            else getitem df c)"
    and "index_len df' = index_len df"
  using assms
  by (auto simp: canonicalize_sexo_def canon_sexo_def str_accessor_def getitem_setitem
        index_len_setitem split: option.splits if_splits)

lemma canonicalize_sexo_Inl:
  "canonicalize_sexo df = Inl e \<longleftrightarrow>
     e = AttributeError \<and> (\<exists>s. getitem df ''Sexo'' = Some s \<and> dtype s \<noteq> Object)"
  by (auto simp: canonicalize_sexo_def canon_sexo_def str_accessor_def split: option.splits)

lemma getitem_coerce_money:
  "getitem (coerce_money L col df) c =
     (if c = col then Some (money_series L (index_len df) (getitem df col)) else getitem df c)"
  by (auto simp: coerce_money_def Let_def has_column_getitem getitem_setitem money_series_def
        broadcast_def split: option.splits)

lemma index_len_coerce_money: "index_len (coerce_money L col df) = index_len df"
  by (auto simp: coerce_money_def Let_def index_len_setitem split: option.splits)

lemma getitem_fold_coerce_money:
  "distinct cs \<Longrightarrow>
   getitem (fold (coerce_money L) cs df) c =
     (if c \<in> set cs then Some (money_series L (index_len df) (getitem df c)) else getitem df c)"
proof (induction cs arbitrary: df)
  case Nil
  then show ?case by simp
next
  case (Cons a cs)
  then show ?case by (auto simp: getitem_coerce_money index_len_coerce_money)
qed

lemma index_len_fold_coerce_money: "index_len (fold (coerce_money L) cs df) = index_len df"
  by (induction cs arbitrary: df) (simp_all add: index_len_coerce_money)

lemma getitem_coerce_money_columns:
  "getitem (coerce_money_columns L df) c =
     (if c \<in> set MONEY_COLS then Some (money_series L (index_len df) (getitem df c)) else getitem df c)"
proof -
  have "distinct MONEY_COLS" by (simp add: MONEY_COLS_def)
  then show ?thesis
    unfolding coerce_money_columns_def by (rule getitem_fold_coerce_money)
qed

lemma index_len_coerce_money_columns: "index_len (coerce_money_columns L df) = index_len df"
  by (simp add: coerce_money_columns_def index_len_fold_coerce_money)

lemma getitem_compute_idade:
  "getitem (compute_idade today df) c =
     (if c = ''Idade'' \<and> getitem df ''Data de Nascimento'' \<noteq> None
      then map_option (\<lambda>s. \<lparr>dtype = Float64, cells = map (idade_cell today) (cells s)\<rparr>)
             (getitem df ''Data de Nascimento'')
      else getitem df c)"
  by (auto simp: compute_idade_def getitem_setitem split: option.splits)

lemma index_len_compute_idade: "index_len (compute_idade today df) = index_len df"
  by (simp add: compute_idade_def index_len_setitem split: option.splits)

lemma getitem_compute_tempo_de_casa:
  "getitem (compute_tempo_de_casa today df) c =
     (if c = ''Tempo de Casa (meses)'' \<and> getitem df ''Data de Contratacao'' \<noteq> None
      then map_option (\<lambda>s. \<lparr>dtype = Float64, cells = map (tempo_cell today) (cells s)\<rparr>)
             (getitem df ''Data de Contratacao'')
      else getitem df c)"
  by (auto simp: compute_tempo_de_casa_def getitem_setitem split: option.splits)

lemma index_len_compute_tempo_de_casa: "index_len (compute_tempo_de_casa today df) = index_len df"
  by (simp add: compute_tempo_de_casa_def index_len_setitem split: option.splits)

lemma getitem_compute_status:
  "getitem (compute_status df) c =
     (if c = ''Status''
      then Some (case getitem df ''Data de Demissao'' of
                   Some s \<Rightarrow> \<lparr>dtype = Object, cells = map status_cell (cells s)\<rparr>
                 | None \<Rightarrow> broadcast df Object (Str ''Ativo''))
      else getitem df c)"
  by (auto simp: compute_status_def getitem_setitem split: option.splits)

lemma index_len_compute_status: "index_len (compute_status df) = index_len df"
  by (simp add: compute_status_def index_len_setitem split: option.splits)

lemma select_columns_Inr:
  "select_columns df cs = Inr ss \<longleftrightarrow> map (getitem df) cs = map Some ss"
proof (induction cs arbitrary: ss)
  case Nil
  then show ?case by auto
next
  case (Cons a cs)
  show ?case
    by (cases "getitem df a"; cases "select_columns df cs"; cases ss)
       (auto simp: Cons.IH [symmetric])
qed

lemma select_columns_Inl:
  "select_columns df cs = Inl e \<Longrightarrow> e = KeyError \<and> (\<exists>c \<in> set cs. getitem df c = None)"
  by (induction cs) (auto split: option.splits sum.splits)

lemma compute_custo_total_Inr:
  assumes "compute_custo_total df = Inr d"
  shows "\<exists>ss. map (getitem df) MONEY_COLS = map Some ss \<and>
           d = setitem df ''Custo Total Mensal'' (sum_axis1 (index_len df) ss)"
  using assms by (auto simp: compute_custo_total_def select_columns_Inr split: sum.splits)

lemma prepare_df_stages:
  assumes "prepare_df L today df = Inr d"
  obtains df3 where
    "canonicalize_sexo (parse_dates L (trim_object_columns L df)) = Inr df3"
    "compute_custo_total (compute_status (compute_tempo_de_casa today
       (compute_idade today (coerce_money_columns L df3)))) = Inr d"
  using assms by (auto simp: prepare_df_def split: sum.splits)

lemma getitem_stage4:
  assumes "wf_df df"
    and "canonicalize_sexo (parse_dates L (trim_object_columns L df)) = Inr df3"
  shows "getitem (coerce_money_columns L df3) c = stage4 L df c"
    and "index_len (coerce_money_columns L df3) = index_len df"
proof -
  have d: "distinct (map fst (columns df))" using assms(1) by (rule wf_df_distinct)
  have n3: "index_len df3 = index_len df"
    using canonicalize_sexo_Inr(2) [OF assms(2)]
    by (simp add: index_len_parse_dates index_len_trim_object_columns)
  have g3: "getitem df3 c' =
        (if c' = ''Sexo'' then map_option (\<lambda>s. canon_series (trimmed L s)) (getitem df c')
         else if c' \<in> set DATE_COLS then map_option (\<lambda>s. to_datetime L (trimmed L s)) (getitem df c')
         else map_option (trimmed L) (getitem df c'))" for c'
    using canonicalize_sexo_Inr(1) [OF assms(2), of c']
    by (simp add: getitem_parse_dates getitem_trim_object_columns [OF d] DATE_COLS_def
          canon_series_def option.map_comp comp_def)
  show "getitem (coerce_money_columns L df3) c = stage4 L df c"
    by (simp add: getitem_coerce_money_columns g3 n3 stage4_def MONEY_COLS_def DATE_COLS_def)
  show "index_len (coerce_money_columns L df3) = index_len df"
    by (simp add: index_len_coerce_money_columns n3)
qed

lemma stage4_date:
  "c \<in> set DATE_COLS \<Longrightarrow> stage4 L df c = map_option (\<lambda>s. to_datetime L (trimmed L s)) (getitem df c)"
  by (auto simp: stage4_def DATE_COLS_def MONEY_COLS_def)

lemma stage4_money:
  "c \<in> set MONEY_COLS \<Longrightarrow>
   stage4 L df c = Some (money_series L (index_len df) (map_option (trimmed L) (getitem df c)))"
  by (simp add: stage4_def)

lemma getitem_prepare_df:
  assumes "wf_df df" and "prepare_df L today df = Inr d"
  shows "getitem d c = prepared_column L today df c"
proof -
  from assms(2) obtain df3 where
    s3: "canonicalize_sexo (parse_dates L (trim_object_columns L df)) = Inr df3" and
    s8: "compute_custo_total (compute_status (compute_tempo_de_casa today
           (compute_idade today (coerce_money_columns L df3)))) = Inr d"
    by (rule prepare_df_stages)
  define df4 where "df4 = coerce_money_columns L df3"
  define df7 where "df7 = compute_status (compute_tempo_de_casa today (compute_idade today df4))"
  have g4: "getitem df4 c' = stage4 L df c'" for c'
    unfolding df4_def by (rule getitem_stage4(1) [OF assms(1) s3])
  have n4: "index_len df4 = index_len df"
    unfolding df4_def by (rule getitem_stage4(2) [OF assms(1) s3])
  have n7: "index_len df7 = index_len df"
    by (simp add: df7_def index_len_compute_status index_len_compute_tempo_de_casa
          index_len_compute_idade n4)
  have nasc: "stage4 L df ''Data de Nascimento'' = None \<longleftrightarrow> getitem df ''Data de Nascimento'' = None"
    by (simp add: stage4_date DATE_COLS_def)
  have contr: "stage4 L df ''Data de Contratacao'' = None \<longleftrightarrow> getitem df ''Data de Contratacao'' = None"
    by (simp add: stage4_date DATE_COLS_def)
  have g7: "getitem df7 c' =
      (if c' = ''Status''
        then Some (case stage4 L df ''Data de Demissao'' of
                     Some s \<Rightarrow> \<lparr>dtype = Object, cells = map status_cell (cells s)\<rparr>
                   | None \<Rightarrow> \<lparr>dtype = Object, cells = replicate (index_len df) (Str ''Ativo'')\<rparr>)
      else if c' = ''Tempo de Casa (meses)'' \<and> getitem df ''Data de Contratacao'' \<noteq> None
        then map_option (\<lambda>s. \<lparr>dtype = Float64, cells = map (tempo_cell today) (cells s)\<rparr>)
               (stage4 L df ''Data de Contratacao'')
      else if c' = ''Idade'' \<and> getitem df ''Data de Nascimento'' \<noteq> None
        then map_option (\<lambda>s. \<lparr>dtype = Float64, cells = map (idade_cell today) (cells s)\<rparr>)
               (stage4 L df ''Data de Nascimento'')
      else stage4 L df c')" for c'
    unfolding df7_def
    by (auto simp: getitem_compute_status getitem_compute_tempo_de_casa getitem_compute_idade
          index_len_compute_tempo_de_casa index_len_compute_idade g4 n4 nasc contr broadcast_def
          split: option.splits)
  from s8 obtain ss where
    ss: "map (getitem df7) MONEY_COLS = map Some ss" and
    d: "d = setitem df7 ''Custo Total Mensal'' (sum_axis1 (index_len df7) ss)"
    unfolding df7_def df4_def by (auto dest: compute_custo_total_Inr)
  have "map Some ss =
      map Some (map (\<lambda>m. money_series L (index_len df) (map_option (trimmed L) (getitem df m))) MONEY_COLS)"
    unfolding ss [symmetric] by (simp add: g7 MONEY_COLS_def stage4_def)
  then have ss_eq: "ss = map (\<lambda>m. money_series L (index_len df) (map_option (trimmed L) (getitem df m))) MONEY_COLS"
    by (rule map_injective) simp
  show ?thesis
    by (simp add: d getitem_setitem g7 n7 ss_eq prepared_column_def)
qed

lemma index_len_prepare_df:
  assumes "wf_df df" and "prepare_df L today df = Inr d"
  shows "index_len d = index_len df"
proof -
  from assms(2) obtain df3 where
    s3: "canonicalize_sexo (parse_dates L (trim_object_columns L df)) = Inr df3" and
    s8: "compute_custo_total (compute_status (compute_tempo_de_casa today
           (compute_idade today (coerce_money_columns L df3)))) = Inr d"
    by (rule prepare_df_stages)
  from compute_custo_total_Inr [OF s8] show ?thesis
    by (auto simp: index_len_setitem index_len_compute_status index_len_compute_tempo_de_casa
          index_len_compute_idade getitem_stage4(2) [OF assms(1) s3])
qed

lemma prepare_df_Inl:
  assumes "wf_df df"
  shows "prepare_df L today df = Inl e \<longleftrightarrow>
           e = AttributeError \<and> (\<exists>s. getitem df ''Sexo'' = Some s \<and> dtype s \<noteq> Object)"
proof -
  have d: "distinct (map fst (columns df))" using assms by (rule wf_df_distinct)
  have sexo: "getitem (parse_dates L (trim_object_columns L df)) ''Sexo'' =
                map_option (trimmed L) (getitem df ''Sexo'')"
    by (simp add: getitem_parse_dates getitem_trim_object_columns [OF d] DATE_COLS_def)
  have dt: "dtype (trimmed L s) = Object \<longleftrightarrow> dtype s = Object" for s
    by (simp add: trimmed_def trim_series_def)
  have no_key: "compute_custo_total (compute_status (compute_tempo_de_casa today
           (compute_idade today (coerce_money_columns L df3)))) \<noteq> Inl e'" for df3 e'
  proof
    assume "compute_custo_total (compute_status (compute_tempo_de_casa today
           (compute_idade today (coerce_money_columns L df3)))) = Inl e'"
    then obtain c where "c \<in> set MONEY_COLS"
      and "getitem (compute_status (compute_tempo_de_casa today
           (compute_idade today (coerce_money_columns L df3)))) c = None"
      by (auto simp: compute_custo_total_def split: sum.splits dest: select_columns_Inl)
    then show False
      by (auto simp: getitem_compute_status getitem_compute_tempo_de_casa getitem_compute_idade
            getitem_coerce_money_columns MONEY_COLS_def split: if_splits)
  qed
  show ?thesis
  proof (cases "canonicalize_sexo (parse_dates L (trim_object_columns L df))")
    case (Inl e')
    then have "prepare_df L today df = Inl e'"
      by (simp add: prepare_df_def)
    moreover from Inl have "e' = AttributeError \<and> (\<exists>s. getitem df ''Sexo'' = Some s \<and> dtype s \<noteq> Object)"
      by (auto simp: canonicalize_sexo_Inl sexo dt)
    ultimately show ?thesis by auto
  next
    case (Inr df3)
    have "\<not> (\<exists>s. getitem df ''Sexo'' = Some s \<and> dtype s \<noteq> Object)"
    proof
      assume "\<exists>s. getitem df ''Sexo'' = Some s \<and> dtype s \<noteq> Object"
      then have "canonicalize_sexo (parse_dates L (trim_object_columns L df)) = Inl AttributeError"
        by (auto simp: canonicalize_sexo_Inl sexo dt)
      with Inr show False by simp
    qed
    then show ?thesis
      using Inr no_key [of df3 e] by (auto simp: prepare_df_def)
  qed
qed

lemma wf_sample_df: "wf_df sample_df"
  by (simp add: wf_df_def series_ok_def sample_df_def)

lemma prepare_sample_df: "prepare_df sample_pandas sample_today sample_df = Inr sample_prepared"
  by code_simp

subsection \<open>Status\<close>

text \<open>
  Claim C1. In the prepared table a record's Status is Desligado exactly when its cell of
  the termination-date column, as parsed in step 2 from the trimmed raw value, is not
  null, and Ativo exactly when it is null; when the raw table has no termination-date
  column, Status is Ativo on every record of the index.
\<close>

theorem status_iff_termination_date:
  assumes "wf_df df" and "prepare_df L today df = Inr d"
  shows "case getitem df ''Data de Demissao'' of
           None \<Rightarrow>
             getitem d ''Status'' =
               Some \<lparr>dtype = Object, cells = replicate (index_len df) (Str ''Ativo'')\<rparr>
         | Some raw \<Rightarrow>
             (\<exists>st dem.
                getitem d ''Status'' = Some st \<and> getitem d ''Data de Demissao'' = Some dem \<and>
                dem = to_datetime L (trimmed L raw) \<and>
                length (cells st) = index_len df \<and> length (cells dem) = index_len df \<and>
                (\<forall>i < index_len df.
                   (cells st ! i = Str ''Desligado'' \<longleftrightarrow> cells dem ! i \<noteq> Null) \<and>
                   (cells st ! i = Str ''Ativo'' \<longleftrightarrow> cells dem ! i = Null)))"
proof (cases "getitem df ''Data de Demissao''")
  case None
  then show ?thesis
    by (simp add: getitem_prepare_df [OF assms] prepared_column_def stage4_date DATE_COLS_def)
next
  case (Some raw)
  have len: "length (cells raw) = index_len df"
    using assms(1) Some by (rule wf_df_length)
  have st: "getitem d ''Status'' =
      Some \<lparr>dtype = Object, cells = map status_cell (cells (to_datetime L (trimmed L raw)))\<rparr>"
    by (simp add: getitem_prepare_df [OF assms] prepared_column_def stage4_date DATE_COLS_def Some)
  have dem: "getitem d ''Data de Demissao'' = Some (to_datetime L (trimmed L raw))"
    by (simp add: getitem_prepare_df [OF assms] prepared_column_def stage4_date DATE_COLS_def Some)
  show ?thesis
    by (simp add: Some st dem length_to_datetime length_trimmed len status_cell_def notna_def)
qed

theorem status_iff_termination_date_witness:
  "wf_df sample_df \<and> prepare_df sample_pandas sample_today sample_df = Inr sample_prepared \<and>
   getitem sample_prepared ''Status'' =
     Some \<lparr>dtype = Object, cells = [Str ''Ativo'', Str ''Desligado'', Str ''Ativo'']\<rparr> \<and>
   (\<exists>st dem.
      getitem sample_prepared ''Status'' = Some st \<and>
      getitem sample_prepared ''Data de Demissao'' = Some dem \<and>
      dem = to_datetime sample_pandas
              (trimmed sample_pandas \<lparr>dtype = Object, cells = [Null, Str ''01/01/2020'', Str ''not-a-date'']\<rparr>) \<and>
      length (cells st) = 3 \<and> length (cells dem) = 3 \<and>
      (\<forall>i < 3.
         (cells st ! i = Str ''Desligado'' \<longleftrightarrow> cells dem ! i \<noteq> Null) \<and>
         (cells st ! i = Str ''Ativo'' \<longleftrightarrow> cells dem ! i = Null)))"
proof -
  have v: "getitem sample_prepared ''Status'' =
     Some \<lparr>dtype = Object, cells = [Str ''Ativo'', Str ''Desligado'', Str ''Ativo'']\<rparr>"
    by (simp add: getitem_def sample_prepared_def)
  have raw: "getitem sample_df ''Data de Demissao'' =
     Some \<lparr>dtype = Object, cells = [Null, Str ''01/01/2020'', Str ''not-a-date'']\<rparr>"
    by (simp add: getitem_def sample_df_def)
  have n: "index_len sample_df = 3"
    by (simp add: sample_df_def)
  show ?thesis
    using status_iff_termination_date [OF wf_sample_df prepare_sample_df] wf_sample_df
      prepare_sample_df
    unfolding raw n option.case
    by (intro conjI v) blast+
qed

subsection \<open>The trim step\<close>

lemma strip_nan: "strip ''nan'' = ''nan''"
  by (simp add: strip_def isspace_def)

text \<open>
  Claim C10. After step 1, a column that was text-typed (dtype object) in the raw table is
  still there with the same length, and none of its cells is null: every cell is a
  string, and a cell that was missing is the string \<^verbatim>\<open>nan\<close>. The column \<open>c\<close> is any
  column, recognised or not.
\<close>

theorem trim_leaves_no_null:
  assumes "wf_df df" and "getitem df c = Some s" and "dtype s = Object"
  shows "\<exists>s'. getitem (trim_object_columns L df) c = Some s' \<and> dtype s' = Object \<and>
           length (cells s') = length (cells s) \<and>
           (\<forall>i < length (cells s).
              cells s' ! i \<noteq> Null \<and> (\<exists>t. cells s' ! i = Str t) \<and>
              (cells s ! i = Null \<longrightarrow> cells s' ! i = Str ''nan''))"
proof -
  have "getitem (trim_object_columns L df) c = Some (trim_series L s)"
    using assms by (simp add: getitem_trim_object_columns wf_df_distinct trimmed_def)
  then show ?thesis
    by (auto simp: trim_series_def strip_nan)
qed

theorem trim_leaves_no_null_witness:
  "wf_df sample_df \<and>
   getitem sample_df ''Nome'' = Some \<lparr>dtype = Object, cells = [Str '' Ana '', Str ''Rui'', Null]\<rparr> \<and>
   (\<exists>s'. getitem (trim_object_columns sample_pandas sample_df) ''Nome'' = Some s' \<and>
      dtype s' = Object \<and> length (cells s') = 3 \<and>
      (\<forall>i < 3. cells s' ! i \<noteq> Null \<and> (\<exists>t. cells s' ! i = Str t) \<and>
         ([Str '' Ana '', Str ''Rui'', Null] ! i = Null \<longrightarrow> cells s' ! i = Str ''nan'')))"
proof -
  have g: "getitem sample_df ''Nome'' = Some \<lparr>dtype = Object, cells = [Str '' Ana '', Str ''Rui'', Null]\<rparr>"
    by (simp add: sample_df_def getitem_def)
  show ?thesis
    using trim_leaves_no_null [OF wf_sample_df g, of sample_pandas] wf_sample_df g
    by (simp add: numeral_3_eq_3)
qed

subsection \<open>The sex code\<close>

lemma upper_char_idem: "upper_char (upper_char c) = upper_char c"
proof (cases "97 \<le> (of_char c :: nat) \<and> (of_char c :: nat) \<le> 122")
  case True
  then have "(of_char c - 32 :: nat) < 256"
    by linarith
  then have "(of_char c - 32) mod 256 = (of_char c - 32 :: nat)"
    by (rule mod_less)
  then have "(of_char (char_of (of_char c - 32 :: nat)) :: nat) = of_char c - 32"
    by simp
  moreover from True have "\<not> 97 \<le> (of_char c - 32 :: nat)"
    by linarith
  ultimately show ?thesis
    using True by (simp add: upper_char_def Let_def)
next
  case False
  then have "upper_char c = c"
    by (auto simp: upper_char_def Let_def)
  then show ?thesis
    by simp
qed

lemma upper_idem: "upper (upper s) = upper s"
  by (simp add: upper_def upper_char_idem)

lemma upper_M: "upper ''M'' = ''M''" and upper_F: "upper ''F'' = ''F''"
  by code_simp+

lemma canon_cell_Str:
  "canon_cell (Str x) =
     (if upper x = ''MASCULINO'' then Str ''M'' else if upper x = ''FEMININO'' then Str ''F''
      else Str (upper x))"
  by (simp add: canon_cell_def)

lemma canon_cell_idem: "canon_cell (canon_cell c) = canon_cell c"
proof (cases c)
  case (Str x)
  then show ?thesis
    by (simp add: canon_cell_Str upper_M upper_F upper_idem)
qed (simp_all add: canon_cell_def)

text \<open>
  Claim C8. Canonicalising a sex column that has been canonicalised gives the same
  column: when \<^verbatim>\<open>.str.upper().replace(...)\<close> returns \<open>s'\<close>, applying it to \<open>s'\<close> returns \<open>s'\<close>.
\<close>
theorem canon_sexo_idempotent:
  assumes "canon_sexo s = Inr s'"
  shows "canon_sexo s' = Inr s'"
proof -
  from assms have "s' = \<lparr>dtype = Object, cells = map canon_cell (cells s)\<rparr>"
    by (auto simp: canon_sexo_def str_accessor_def split: if_splits)
  then show ?thesis
    by (simp add: canon_sexo_def str_accessor_def canon_cell_idem)
qed

theorem canon_sexo_idempotent_witness:
  "canon_sexo \<lparr>dtype = Object, cells = [Str ''feminino'', Str ''Outro'', Str ''m'', Null]\<rparr> =
     Inr \<lparr>dtype = Object, cells = [Str ''F'', Str ''OUTRO'', Str ''M'', Null]\<rparr> \<and>
   canon_sexo \<lparr>dtype = Object, cells = [Str ''F'', Str ''OUTRO'', Str ''M'', Null]\<rparr> =
     Inr \<lparr>dtype = Object, cells = [Str ''F'', Str ''OUTRO'', Str ''M'', Null]\<rparr>"
proof -
  have h: "canon_sexo \<lparr>dtype = Object, cells = [Str ''feminino'', Str ''Outro'', Str ''m'', Null]\<rparr> =
     Inr \<lparr>dtype = Object, cells = [Str ''F'', Str ''OUTRO'', Str ''M'', Null]\<rparr>"
    by code_simp
  show ?thesis
    using canon_sexo_idempotent [OF h] h by simp
qed

text \<open>
  Claim C3 says that an unrecognised value passes through unchanged and that
  \<^verbatim>\<open>Outro\<close> stays \<^verbatim>\<open>Outro\<close>. The column is upper-cased first (line 113), so
  \<^verbatim>\<open>Outro\<close> comes out as \<^verbatim>\<open>OUTRO\<close>.
\<close>
theorem canon_sexo_outro_counterexample:
  "canon_sexo \<lparr>dtype = Object, cells = [Str ''Outro'']\<rparr> \<noteq> Inr \<lparr>dtype = Object, cells = [Str ''Outro'']\<rparr>"
  by code_simp

text \<open>
  Claim C3, amended. On a text column the canonicalisation returns a column of the same
  length in which every string is upper-cased and then, if it is one of the two long
  forms, replaced by its letter; any other string comes out upper-cased. So
  \<^verbatim>\<open>feminino\<close> becomes \<^verbatim>\<open>F\<close> and \<^verbatim>\<open>Outro\<close> becomes \<^verbatim>\<open>OUTRO\<close>.
\<close>

theorem canon_sexo_uppercases:
  "(dtype s = Object \<longrightarrow>
      (\<exists>s'. canon_sexo s = Inr s' \<and> length (cells s') = length (cells s) \<and>
         (\<forall>i < length (cells s). \<forall>x. cells s ! i = Str x \<longrightarrow>
            cells s' ! i =
              (if upper x = ''MASCULINO'' then Str ''M''
               else if upper x = ''FEMININO'' then Str ''F''
               else Str (upper x))))) \<and>
   canon_sexo \<lparr>dtype = Object, cells = [Str ''feminino'', Str ''Outro'']\<rparr> =
     Inr \<lparr>dtype = Object, cells = [Str ''F'', Str ''OUTRO'']\<rparr>"
proof -
  have "canon_sexo \<lparr>dtype = Object, cells = [Str ''feminino'', Str ''Outro'']\<rparr> =
     Inr \<lparr>dtype = Object, cells = [Str ''F'', Str ''OUTRO'']\<rparr>"
    by code_simp
  then show ?thesis
    by (simp add: canon_sexo_def str_accessor_def canon_cell_Str)
qed

theorem canon_sexo_uppercases_witness:
  "dtype \<lparr>dtype = Object, cells = [Str ''masculino'', Str ''x'']\<rparr> = Object \<and>
   (\<exists>s'. canon_sexo \<lparr>dtype = Object, cells = [Str ''masculino'', Str ''x'']\<rparr> = Inr s' \<and>
      length (cells s') = 2 \<and> cells s' ! 0 = Str ''M'' \<and> cells s' ! 1 = Str ''X'')"
proof -
  have u: "upper ''masculino'' = ''MASCULINO''" "upper ''x'' = ''X''"
    by code_simp+
  show ?thesis
    using canon_sexo_uppercases [of "\<lparr>dtype = Object, cells = [Str ''masculino'', Str ''x'']\<rparr>"]
    by (auto simp: u)
qed

subsection \<open>The monetary columns and the total\<close>

lemma wf_df_series_ok: "wf_df df \<Longrightarrow> getitem df c = Some s \<Longrightarrow> series_ok (index_len df) s"
  by (auto simp: wf_df_def getitem_def list_all_iff dest!: map_of_SomeD)

lemma series_ok_trimmed: "series_ok n s \<Longrightarrow> series_ok n (trimmed L s)"
  by (simp add: series_ok_def trimmed_def trim_series_def list_all_iff)

lemma fillna_to_numeric_cell: "\<exists>x. fillna_cell 0 (to_numeric_cell L c) = Num x"
  by (cases c) (auto split: option.splits)

lemma fillna_view_int64: "cell_ok Datetime64 c \<Longrightarrow> \<exists>x. fillna_cell 0 (view_int64 c) = Num x"
  by (cases c) auto

lemma fillna_float: "cell_ok Float64 c \<Longrightarrow> \<exists>x. fillna_cell 0 c = Num x"
  by (cases c) auto

lemma coerced_cells_Num:
  assumes "series_ok n s" and "c \<in> set (cells (fillna 0 (to_numeric L s)))"
  shows "\<exists>x. c = Num x"
proof (cases "dtype s")
  case Object
  with assms(2) show ?thesis
    using fillna_to_numeric_cell by (auto simp: fillna_def to_numeric_def)
next
  case Float64
  with assms show ?thesis
    using fillna_float by (auto simp: fillna_def to_numeric_def series_ok_def list_all_iff)
next
  case Datetime64
  with assms show ?thesis
    using fillna_view_int64 by (auto simp: fillna_def to_numeric_def series_ok_def list_all_iff)
qed

lemma money_series_ok:
  assumes "case so of None \<Rightarrow> True | Some s \<Rightarrow> series_ok n s"
  shows "length (cells (money_series L n so)) = n"
    and "c \<in> set (cells (money_series L n so)) \<Longrightarrow> \<exists>x. c = Num x"
proof -
  show "length (cells (money_series L n so)) = n"
    using assms by (simp add: length_money_series series_ok_def split: option.splits)
  show "\<exists>x. c = Num x" if "c \<in> set (cells (money_series L n so))"
  proof (cases so)
    case None
    with that show ?thesis
      by (auto simp: money_series_def fillna_def to_numeric_def)
  next
    case (Some s)
    with assms have "series_ok n s" by simp
    then show ?thesis
      using that Some by (auto simp: money_series_def intro: coerced_cells_Num)
  qed
qed

lemma money_column_prepared:
  assumes "wf_df df" and "prepare_df L today df = Inr d" and "m \<in> set MONEY_COLS"
  shows "getitem d m = Some (money_series L (index_len df) (map_option (trimmed L) (getitem df m)))"
    and "length (cells (money_series L (index_len df) (map_option (trimmed L) (getitem df m)))) = index_len df"
    and "i < index_len df \<Longrightarrow>
           \<exists>x. cells (money_series L (index_len df) (map_option (trimmed L) (getitem df m))) ! i = Num x"
proof -
  let ?s = "money_series L (index_len df) (map_option (trimmed L) (getitem df m))"
  show "getitem d m = Some ?s"
    using assms(3)
    by (auto simp: getitem_prepare_df [OF assms(1,2)] prepared_column_def stage4_def MONEY_COLS_def)
  have ok: "case map_option (trimmed L) (getitem df m) of None \<Rightarrow> True
             | Some s \<Rightarrow> series_ok (index_len df) s"
    by (auto split: option.splits intro: series_ok_trimmed wf_df_series_ok [OF assms(1)])
  show len: "length (cells ?s) = index_len df"
    by (rule money_series_ok(1) [OF ok])
  show "\<exists>x. cells ?s ! i = Num x" if "i < index_len df"
    using that len by (intro money_series_ok(2) [OF ok, where L = L]) simp
qed







subsection \<open>Age and tenure\<close>

lemma to_datetime_cell_cases: "to_datetime_cell L c = Null \<or> (\<exists>t. to_datetime_cell L c = Date t)"
  by (cases c) (auto split: option.splits)

lemma date_column_prepared:
  assumes "wf_df df" and "prepare_df L today df = Inr d" and "c \<in> set DATE_COLS"
    and "getitem df c = Some raw"
  shows "getitem d c = Some (to_datetime L (trimmed L raw))"
    and "length (cells (to_datetime L (trimmed L raw))) = index_len df"
proof -
  show "getitem d c = Some (to_datetime L (trimmed L raw))"
    using assms(3,4)
    by (auto simp: getitem_prepare_df [OF assms(1,2)] prepared_column_def stage4_date DATE_COLS_def)
  show "length (cells (to_datetime L (trimmed L raw))) = index_len df"
    using wf_df_length [OF assms(1,4)] by (simp add: length_to_datetime length_trimmed)
qed

lemma idade_cell_cases:
  "(c = Null \<and> idade_cell today c = Null) \<or>
   (\<exists>t n. c = Date t \<and> idade_cell today c = Num (of_int n) \<and> 0 \<le> n \<and>
      n = max 0 ((ts_value today - ts_value t) div NS_PER_DAY div 365) \<and>
      (ts_value today \<le> ts_value t \<longrightarrow> n = 0))"
  if "c = Null \<or> (\<exists>t. c = Date t)"
proof -
  have "(x div NS_PER_DAY) div 365 \<le> 0" if "x \<le> 0" for x :: int
  proof -
    from that have "x div NS_PER_DAY \<le> 0"
      by (simp add: NS_PER_DAY_def div_nonpos_pos_le0)
    then show ?thesis
      by (simp add: div_nonpos_pos_le0)
  qed
  then have "max 0 ((ts_value today - ts_value t) div NS_PER_DAY div 365) = 0"
    if "ts_value today \<le> ts_value t" for t :: timestamp
    using that by (simp add: max_absorb1)
  with \<open>c = Null \<or> (\<exists>t. c = Date t)\<close> show ?thesis
    by (auto simp: idade_cell_def clip_lower_def)
qed

lemma tempo_cell_cases:
  "(c = Null \<and> tempo_cell today c = Null) \<or>
   (\<exists>t n. c = Date t \<and> tempo_cell today c = Num (of_int n) \<and> 0 \<le> n \<and>
      n = max 0 ((ts_year today - ts_year t) * 12 + (ts_month today - ts_month t)) \<and>
      (ts_year today * 12 + ts_month today \<le> ts_year t * 12 + ts_month t \<longrightarrow> n = 0))"
  if "c = Null \<or> (\<exists>t. c = Date t)"
  using that by (auto simp: tempo_cell_def clip_lower_def)

text \<open>
  Claim C6. When the raw table has the birth-date column, Idade on every record is either
  absent (the birth date did not parse) or an integer that is not negative, and it is 0
  when the birth date is not before today. The same holds for Tempo de Casa (meses) and
  the hire-date column, which is 0 when the hire month is not before the month of today.
\<close>

theorem age_and_tenure_not_negative:
  assumes "wf_df df" and "prepare_df L today df = Inr d"
  shows "(has_column df ''Data de Nascimento'' \<longrightarrow>
            (\<exists>age birth.
               getitem d ''Idade'' = Some age \<and> getitem d ''Data de Nascimento'' = Some birth \<and>
               length (cells age) = index_len df \<and> length (cells birth) = index_len df \<and>
               (\<forall>i < index_len df.
                  (cells birth ! i = Null \<and> cells age ! i = Null) \<or>
                  (\<exists>t n. cells birth ! i = Date t \<and> cells age ! i = Num (of_int n) \<and> 0 \<le> n \<and>
                     n = max 0 ((ts_value today - ts_value t) div NS_PER_DAY div 365) \<and>
                     (ts_value today \<le> ts_value t \<longrightarrow> n = 0))))) \<and>
         (has_column df ''Data de Contratacao'' \<longrightarrow>
            (\<exists>tenure hire.
               getitem d ''Tempo de Casa (meses)'' = Some tenure \<and>
               getitem d ''Data de Contratacao'' = Some hire \<and>
               length (cells tenure) = index_len df \<and> length (cells hire) = index_len df \<and>
               (\<forall>i < index_len df.
                  (cells hire ! i = Null \<and> cells tenure ! i = Null) \<or>
                  (\<exists>t n. cells hire ! i = Date t \<and> cells tenure ! i = Num (of_int n) \<and> 0 \<le> n \<and>
                     n = max 0 ((ts_year today - ts_year t) * 12 + (ts_month today - ts_month t)) \<and>
                     (ts_year today * 12 + ts_month today \<le> ts_year t * 12 + ts_month t \<longrightarrow> n = 0)))))"
proof (intro conjI impI)
  assume "has_column df ''Data de Nascimento''"
  then obtain raw where raw: "getitem df ''Data de Nascimento'' = Some raw"
    by (auto simp: has_column_getitem)
  let ?b = "to_datetime L (trimmed L raw)"
  have mem: "''Data de Nascimento'' \<in> set DATE_COLS" by (simp add: DATE_COLS_def)
  note b = date_column_prepared [OF assms mem raw]
  have a: "getitem d ''Idade'' = Some \<lparr>dtype = Float64, cells = map (idade_cell today) (cells ?b)\<rparr>"
    by (simp add: getitem_prepare_df [OF assms] prepared_column_def stage4_date [OF mem] raw)
  have "(cells ?b ! i = Null \<and> map (idade_cell today) (cells ?b) ! i = Null) \<or>
        (\<exists>t n. cells ?b ! i = Date t \<and> map (idade_cell today) (cells ?b) ! i = Num (of_int n) \<and> 0 \<le> n \<and>
           n = max 0 ((ts_value today - ts_value t) div NS_PER_DAY div 365) \<and>
           (ts_value today \<le> ts_value t \<longrightarrow> n = 0))" if "i < index_len df" for i
  proof -
    from that b(2) have i: "i < length (cells ?b)" by simp
    then have "cells ?b ! i = Null \<or> (\<exists>t. cells ?b ! i = Date t)"
      using to_datetime_cell_cases by (simp add: to_datetime_def)
    from idade_cell_cases [OF this] i show ?thesis by simp
  qed
  with a b show "\<exists>age birth.
               getitem d ''Idade'' = Some age \<and> getitem d ''Data de Nascimento'' = Some birth \<and>
               length (cells age) = index_len df \<and> length (cells birth) = index_len df \<and>
               (\<forall>i < index_len df.
                  (cells birth ! i = Null \<and> cells age ! i = Null) \<or>
                  (\<exists>t n. cells birth ! i = Date t \<and> cells age ! i = Num (of_int n) \<and> 0 \<le> n \<and>
                     n = max 0 ((ts_value today - ts_value t) div NS_PER_DAY div 365) \<and>
                     (ts_value today \<le> ts_value t \<longrightarrow> n = 0)))"
    by (intro exI [of _ "\<lparr>dtype = Float64, cells = map (idade_cell today) (cells ?b)\<rparr>"] exI [of _ ?b]) simp
next
  assume "has_column df ''Data de Contratacao''"
  then obtain raw where raw: "getitem df ''Data de Contratacao'' = Some raw"
    by (auto simp: has_column_getitem)
  let ?b = "to_datetime L (trimmed L raw)"
  have mem: "''Data de Contratacao'' \<in> set DATE_COLS" by (simp add: DATE_COLS_def)
  note b = date_column_prepared [OF assms mem raw]
  have a: "getitem d ''Tempo de Casa (meses)'' =
             Some \<lparr>dtype = Float64, cells = map (tempo_cell today) (cells ?b)\<rparr>"
    by (simp add: getitem_prepare_df [OF assms] prepared_column_def stage4_date [OF mem] raw)
  have "(cells ?b ! i = Null \<and> map (tempo_cell today) (cells ?b) ! i = Null) \<or>
        (\<exists>t n. cells ?b ! i = Date t \<and> map (tempo_cell today) (cells ?b) ! i = Num (of_int n) \<and> 0 \<le> n \<and>
           n = max 0 ((ts_year today - ts_year t) * 12 + (ts_month today - ts_month t)) \<and>
           (ts_year today * 12 + ts_month today \<le> ts_year t * 12 + ts_month t \<longrightarrow> n = 0))"
    if "i < index_len df" for i
  proof -
    from that b(2) have i: "i < length (cells ?b)" by simp
    then have "cells ?b ! i = Null \<or> (\<exists>t. cells ?b ! i = Date t)"
      using to_datetime_cell_cases by (simp add: to_datetime_def)
    from tempo_cell_cases [OF this] i show ?thesis by simp
  qed
  with a b show "\<exists>tenure hire.
               getitem d ''Tempo de Casa (meses)'' = Some tenure \<and>
               getitem d ''Data de Contratacao'' = Some hire \<and>
               length (cells tenure) = index_len df \<and> length (cells hire) = index_len df \<and>
               (\<forall>i < index_len df.
                  (cells hire ! i = Null \<and> cells tenure ! i = Null) \<or>
                  (\<exists>t n. cells hire ! i = Date t \<and> cells tenure ! i = Num (of_int n) \<and> 0 \<le> n \<and>
                     n = max 0 ((ts_year today - ts_year t) * 12 + (ts_month today - ts_month t)) \<and>
                     (ts_year today * 12 + ts_month today \<le> ts_year t * 12 + ts_month t \<longrightarrow> n = 0)))"
    by (intro exI [of _ "\<lparr>dtype = Float64, cells = map (tempo_cell today) (cells ?b)\<rparr>"] exI [of _ ?b]) simp
qed

theorem age_and_tenure_not_negative_witness:
  "wf_df sample_df \<and> prepare_df sample_pandas sample_today sample_df = Inr sample_prepared \<and>
   has_column sample_df ''Data de Nascimento'' \<and> has_column sample_df ''Data de Contratacao'' \<and>
   getitem sample_prepared ''Idade'' = Some \<lparr>dtype = Float64, cells = [Num 35, Null, Num 0]\<rparr> \<and>
   getitem sample_prepared ''Tempo de Casa (meses)'' =
     Some \<lparr>dtype = Float64, cells = [Num 65, Null, Num 0]\<rparr> \<and>
   (\<exists>age birth.
      getitem sample_prepared ''Idade'' = Some age \<and>
      getitem sample_prepared ''Data de Nascimento'' = Some birth \<and>
      length (cells age) = index_len sample_df \<and> length (cells birth) = index_len sample_df \<and>
      (\<forall>i < index_len sample_df.
         (cells birth ! i = Null \<and> cells age ! i = Null) \<or>
         (\<exists>t n. cells birth ! i = Date t \<and> cells age ! i = Num (of_int n) \<and> 0 \<le> n \<and>
            n = max 0 ((ts_value sample_today - ts_value t) div NS_PER_DAY div 365) \<and>
            (ts_value sample_today \<le> ts_value t \<longrightarrow> n = 0)))) \<and>
   (\<exists>tenure hire.
      getitem sample_prepared ''Tempo de Casa (meses)'' = Some tenure \<and>
      getitem sample_prepared ''Data de Contratacao'' = Some hire \<and>
      length (cells tenure) = index_len sample_df \<and> length (cells hire) = index_len sample_df \<and>
      (\<forall>i < index_len sample_df.
         (cells hire ! i = Null \<and> cells tenure ! i = Null) \<or>
         (\<exists>t n. cells hire ! i = Date t \<and> cells tenure ! i = Num (of_int n) \<and> 0 \<le> n \<and>
            n = max 0 ((ts_year sample_today - ts_year t) * 12 + (ts_month sample_today - ts_month t)) \<and>
            (ts_year sample_today * 12 + ts_month sample_today \<le> ts_year t * 12 + ts_month t \<longrightarrow> n = 0))))"
proof -
  have h: "has_column sample_df ''Data de Nascimento''" "has_column sample_df ''Data de Contratacao''"
    by (simp_all add: has_column_def sample_df_def)
  have v: "getitem sample_prepared ''Idade'' = Some \<lparr>dtype = Float64, cells = [Num 35, Null, Num 0]\<rparr>"
    "getitem sample_prepared ''Tempo de Casa (meses)'' =
       Some \<lparr>dtype = Float64, cells = [Num 65, Null, Num 0]\<rparr>"
    by (simp_all add: getitem_def sample_prepared_def)
  show ?thesis
    using age_and_tenure_not_negative [OF wf_sample_df prepare_sample_df] wf_sample_df
      prepare_sample_df h v
    by blast
qed

subsection \<open>Payroll\<close>

lemma sum_list_loc:
  "length xs = length ys \<Longrightarrow>
   sum_list (map skipna_value (map snd (filter fst (zip (map P xs) ys)))) =
     (\<Sum>i < length ys. if P (xs ! i) then skipna_value (ys ! i) else 0)"
  by (induction xs ys rule: list_induct2)
     (simp_all add: sum.lessThan_Suc_shift del: sum.lessThan_Suc cong: if_cong)

lemma k_folha_sum:
  assumes "getitem d ''Status'' = Some st" and "getitem d ''Salario Base'' = Some sal"
    and "length (cells st) = length (cells sal)"
    and "\<forall>c \<in> set (cells sal). \<exists>x. c = Num x"
  shows "k_folha d =
           Inr (\<Sum>i < length (cells sal).
                  if cells st ! i = Str ''Ativo'' then skipna_value (cells sal ! i) else 0)"
proof -
  have "set (map snd (filter fst (zip (eq_mask st ''Ativo'') (cells sal)))) \<subseteq> set (cells sal)"
    by (auto dest: set_zip_rightD)
  with assms(4) have "list_all is_number_or_null (cells (loc (eq_mask st ''Ativo'') sal))"
    by (fastforce simp: loc_def list_all_iff)
  then show ?thesis
    using assms(1,2) sum_list_loc [OF assms(3), of "\<lambda>c. c = Str ''Ativo''"]
    by (simp add: k_folha_def series_sum_def loc_def eq_mask_def)
qed

lemma status_column_prepared:
  assumes "wf_df df" and "prepare_df L today df = Inr d"
  shows "\<exists>st. getitem d ''Status'' = Some st \<and> length (cells st) = index_len df \<and>
           (\<forall>c \<in> set (cells st). c = Str ''Ativo'' \<or> c = Str ''Desligado'')"
proof (cases "getitem df ''Data de Demissao''")
  case None
  then show ?thesis
    by (simp add: getitem_prepare_df [OF assms] prepared_column_def stage4_date DATE_COLS_def)
next
  case (Some raw)
  then show ?thesis
    using wf_df_length [OF assms(1) Some]
    by (auto simp: getitem_prepare_df [OF assms] prepared_column_def stage4_date DATE_COLS_def
          length_to_datetime length_trimmed status_cell_def)
qed

text \<open>
  Claim C9. On a prepared table \<^verbatim>\<open>k_folha\<close> returns the sum, over the records of the
  index, of the base salary of the records whose Status is Ativo; any other record
  (Desligado) adds nothing.
\<close>

theorem payroll_sums_active_salaries:
  assumes "wf_df df" and "prepare_df L today df = Inr d"
  shows "\<exists>st sal.
           getitem d ''Status'' = Some st \<and> getitem d ''Salario Base'' = Some sal \<and>
           length (cells st) = index_len df \<and> length (cells sal) = index_len df \<and>
           k_folha d =
             Inr (\<Sum>i < index_len df.
                    if cells st ! i = Str ''Ativo'' then skipna_value (cells sal ! i) else 0)"
proof -
  from status_column_prepared [OF assms] obtain st where
    st: "getitem d ''Status'' = Some st" "length (cells st) = index_len df"
    by blast
  let ?sal = "money_series L (index_len df) (map_option (trimmed L) (getitem df ''Salario Base''))"
  have mem: "''Salario Base'' \<in> set MONEY_COLS" by (simp add: MONEY_COLS_def)
  have sal: "getitem d ''Salario Base'' = Some ?sal" "length (cells ?sal) = index_len df"
    by (rule money_column_prepared(1,2) [OF assms mem])+
  have num: "\<forall>c \<in> set (cells ?sal). \<exists>x. c = Num x"
    using money_column_prepared(3) [OF assms mem] sal(2) by (auto simp: in_set_conv_nth)
  from k_folha_sum [OF st(1) sal(1) _ num] st sal show ?thesis
    by simp
qed

theorem payroll_sums_active_salaries_witness:
  "wf_df sample_df \<and> prepare_df sample_pandas sample_today sample_df = Inr sample_prepared \<and>
   k_folha sample_prepared = Inr 6200.5 \<and>
   (\<exists>st sal.
      getitem sample_prepared ''Status'' = Some st \<and>
      getitem sample_prepared ''Salario Base'' = Some sal \<and>
      length (cells st) = index_len sample_df \<and> length (cells sal) = index_len sample_df \<and>
      k_folha sample_prepared =
        Inr (\<Sum>i < index_len sample_df.
               if cells st ! i = Str ''Ativo'' then skipna_value (cells sal ! i) else 0))"
proof -
  have v: "k_folha sample_prepared = Inr 6200.5"
    by (simp add: k_folha_def sample_prepared_def getitem_def series_sum_def loc_def eq_mask_def)
  show ?thesis
    using payroll_sums_active_salaries [OF wf_sample_df prepare_sample_df] wf_sample_df
      prepare_sample_df v
    by blast
qed

subsection \<open>Unrecognised columns\<close>

lemma wf_passthrough_df: "wf_df passthrough_df"
  by (simp add: wf_df_def series_ok_def passthrough_df_def)

lemma prepare_passthrough_df:
  "prepare_df sample_pandas sample_today passthrough_df = Inr passthrough_prepared"
  by code_simp

text \<open>
  Claim C5 says that every value of an unrecognised column is unchanged in the prepared
  table. Step 1 trims every text column, recognised or not: the text column Nome comes
  out stripped. And a raw column that bears the name of a derived column is replaced
  when that column is assigned: Status and Custo Total Mensal always, Tempo de Casa
  (meses) because the table has the hire-date column.
\<close>

theorem unrecognised_columns_counterexample:
  "wf_df passthrough_df \<and>
   prepare_df sample_pandas sample_today passthrough_df = Inr passthrough_prepared \<and>
   getitem passthrough_df ''Nome'' = Some \<lparr>dtype = Object, cells = [Str '' Ana '']\<rparr> \<and>
   getitem passthrough_prepared ''Nome'' = Some \<lparr>dtype = Object, cells = [Str ''Ana'']\<rparr> \<and>
   getitem passthrough_df ''Status'' = Some \<lparr>dtype = Object, cells = [Str ''Ferias'']\<rparr> \<and>
   getitem passthrough_prepared ''Status'' = Some \<lparr>dtype = Object, cells = [Str ''Ativo'']\<rparr> \<and>
   getitem passthrough_df ''Custo Total Mensal'' = Some \<lparr>dtype = Float64, cells = [Num 7]\<rparr> \<and>
   getitem passthrough_prepared ''Custo Total Mensal'' = Some \<lparr>dtype = Float64, cells = [Num 0]\<rparr> \<and>
   has_column passthrough_df ''Data de Contratacao'' \<and>
   getitem passthrough_df ''Tempo de Casa (meses)'' = Some \<lparr>dtype = Float64, cells = [Num 3]\<rparr> \<and>
   getitem passthrough_prepared ''Tempo de Casa (meses)'' =
     Some \<lparr>dtype = Float64, cells = [Num 65]\<rparr>"
  using prepare_passthrough_df wf_passthrough_df
  by (simp add: getitem_def has_column_def passthrough_df_def passthrough_prepared_def)

text \<open>
  Claim C5, amended. A column of the raw table that is none of the recognised columns
  (the sex code, the three dates, the five monetary columns) is in the prepared table,
  unless a derived column is assigned under its name: Status and Custo Total Mensal
  always are, Idade when the table has the birth-date column, Tempo de Casa (meses) when
  it has the hire-date column. Its values are unchanged when it is not text-typed; when
  it is text-typed every value is turned into a string and stripped, as step 1 does it.
\<close>

theorem unrecognised_column_passes:
  assumes "wf_df df" and "prepare_df L today df = Inr d" and "getitem df c = Some s"
    and "c \<notin> set (''Sexo'' # DATE_COLS @ MONEY_COLS)"
    and "c \<notin> {''Status'', ''Custo Total Mensal''}"
    and "c = ''Idade'' \<longrightarrow> \<not> has_column df ''Data de Nascimento''"
    and "c = ''Tempo de Casa (meses)'' \<longrightarrow> \<not> has_column df ''Data de Contratacao''"
  shows "getitem d c = Some (if dtype s = Object then trim_series L s else s)"
proof -
  have tempo: "(c = ''Tempo de Casa (meses)'' \<and> getitem df ''Data de Contratacao'' \<noteq> None) = False"
    using assms(7) by (simp add: has_column_getitem)
  have idade: "(c = ''Idade'' \<and> getitem df ''Data de Nascimento'' \<noteq> None) = False"
    using assms(6) by (simp add: has_column_getitem)
  have derived: "c \<noteq> ''Custo Total Mensal''" "c \<noteq> ''Status''"
    using assms(5) by simp_all
  have recognised: "c \<notin> set MONEY_COLS" "c \<noteq> ''Sexo''" "c \<notin> set DATE_COLS"
    using assms(4) by simp_all
  have "prepared_column L today df c = stage4 L df c"
    unfolding prepared_column_def by (simp only: tempo idade derived if_False)
  also have "\<dots> = map_option (trimmed L) (getitem df c)"
    unfolding stage4_def by (simp only: recognised if_False)
  finally show ?thesis
    by (simp add: getitem_prepare_df [OF assms(1,2)] assms(3) trimmed_def)
qed

theorem unrecognised_column_passes_witness:
  "wf_df passthrough_df \<and>
   prepare_df sample_pandas sample_today passthrough_df = Inr passthrough_prepared \<and>
   getitem passthrough_df ''Idade'' = Some \<lparr>dtype = Float64, cells = [Num 41]\<rparr> \<and>
   ''Idade'' \<notin> set (''Sexo'' # DATE_COLS @ MONEY_COLS) \<and>
   ''Idade'' \<notin> {''Status'', ''Custo Total Mensal''} \<and>
   \<not> has_column passthrough_df ''Data de Nascimento'' \<and>
   ''Idade'' \<noteq> ''Tempo de Casa (meses)'' \<and>
   getitem passthrough_prepared ''Idade'' = Some \<lparr>dtype = Float64, cells = [Num 41]\<rparr>"
proof -
  have g: "getitem passthrough_df ''Idade'' = Some \<lparr>dtype = Float64, cells = [Num 41]\<rparr>"
    by (simp add: getitem_def passthrough_df_def)
  have n1: "''Idade'' \<notin> set (''Sexo'' # DATE_COLS @ MONEY_COLS)"
    by (simp add: DATE_COLS_def MONEY_COLS_def)
  have n2: "''Idade'' \<notin> {''Status'', ''Custo Total Mensal''}"
    by simp
  have nb: "\<not> has_column passthrough_df ''Data de Nascimento''"
    by (simp add: has_column_def passthrough_df_def)
  have h1: "''Idade'' = ''Idade'' \<longrightarrow> \<not> has_column passthrough_df ''Data de Nascimento''"
    using nb by simp
  have ne: "''Idade'' \<noteq> ''Tempo de Casa (meses)''"
    by simp
  have h2: "''Idade'' = ''Tempo de Casa (meses)'' \<longrightarrow> \<not> has_column passthrough_df ''Data de Contratacao''"
    by simp
  show ?thesis
    using unrecognised_column_passes [OF wf_passthrough_df prepare_passthrough_df g n1 n2 h1 h2]
      wf_passthrough_df prepare_passthrough_df g n1 n2 nb ne
    by simp
qed

subsection \<open>When prepare_df raises\<close>

text \<open>
  \<open>prepare_df\<close> raises in one case only: the table has a sex column that is not
  text-typed. Then \<^verbatim>\<open>.str\<close> raises AttributeError. Dates and monetary values never
  make it raise: a date string that does not parse gives a null date.
\<close>

lemma wf_blank_sexo_df: "wf_df blank_sexo_df"
  by (simp add: wf_df_def series_ok_def blank_sexo_df_def)

text \<open>
  Claim C7 says that no malformed value makes the Preparer raise. A table of one record
  whose sex cell is blank (the column is read as float64 holding NaN) makes it raise
  AttributeError at line 113, whatever the library and the date.
\<close>

theorem blank_sexo_column_raises:
  "prepare_df L today blank_sexo_df = Inl AttributeError"
  by (simp add: prepare_df_Inl [OF wf_blank_sexo_df]) (simp add: getitem_def blank_sexo_df_def)

lemma prepare_df_returns_iff:
  assumes "wf_df df"
  shows "(\<exists>d. prepare_df L today df = Inr d) \<longleftrightarrow>
           (\<forall>s. getitem df ''Sexo'' = Some s \<longrightarrow> dtype s = Object)"
proof (cases "prepare_df L today df")
  case (Inl e)
  then show ?thesis
    using prepare_df_Inl [OF assms, of L today e] by auto
next
  case (Inr d)
  then show ?thesis
    using prepare_df_Inl [OF assms, of L today AttributeError] by auto
qed

lemma malformed_date_is_null:
  assumes "wf_df df" and "prepare_df L today df = Inr d" and "c \<in> set DATE_COLS"
    and "getitem df c = Some raw" and "dtype raw = Object" and "i < index_len df"
    and "parse_datetime L (strip (astype_str L (cells raw ! i))) = None"
  shows "\<exists>col. getitem d c = Some col \<and> cells col ! i = Null"
proof -
  have "i < length (cells raw)"
    using wf_df_length [OF assms(1,4)] assms(6) by simp
  then have "cells (to_datetime L (trimmed L raw)) ! i = Null"
    using assms(5,7) by (simp add: to_datetime_def trimmed_def trim_series_def)
  with date_column_prepared(1) [OF assms(1,2,3,4)] show ?thesis
    by simp
qed

subsection \<open>The indicators on a table of zero records\<close>

lemma wf_header_only_df: "wf_df header_only_df"
  by (simp add: wf_df_def series_ok_def header_only_df_def)

text \<open>
  Claim C4 says that the six indicators return 0 on a table of zero records. On the
  table of zero records that has the birth-date column (a sheet with its header row
  only), \<open>prepare_df\<close> returns a table whose Idade column is empty, and \<^verbatim>\<open>k_idade_media\<close>
  returns the mean of no value, NaN; the other five indicators return 0 there.
\<close>

theorem average_age_of_no_record_is_nan:
  "\<exists>d. prepare_df L today header_only_df = Inr d \<and> k_idade_media d = Inr None \<and>
        k_headcount_ativo d = Inr 0 \<and> k_desligados d = Inr 0 \<and> k_folha d = Inr 0 \<and>
        k_custo_total d = Inr 0 \<and> k_avaliacao_media d = Inr (Some 0)"
proof -
  have "\<forall>s. getitem header_only_df ''Sexo'' = Some s \<longrightarrow> dtype s = Object"
    by (simp add: getitem_def header_only_df_def)
  then obtain d where d: "prepare_df L today header_only_df = Inr d"
    using prepare_df_returns_iff [OF wf_header_only_df] by blast
  note g = getitem_prepare_df [OF wf_header_only_df d]
  have raw: "getitem header_only_df c =
      (if c = ''Data de Nascimento'' then Some \<lparr>dtype = Object, cells = []\<rparr> else None)" for c
    by (simp add: getitem_def header_only_df_def)
  have n: "index_len header_only_df = 0"
    by (simp add: header_only_df_def)
  have idade: "getitem d ''Idade'' = Some \<lparr>dtype = Float64, cells = []\<rparr>"
    by (simp add: g prepared_column_def stage4_def raw DATE_COLS_def MONEY_COLS_def
          to_datetime_def trimmed_def trim_series_def)
  have status: "getitem d ''Status'' = Some \<lparr>dtype = Object, cells = []\<rparr>"
    by (simp add: g prepared_column_def stage4_def raw n DATE_COLS_def MONEY_COLS_def)
  have sal: "getitem d ''Salario Base'' = Some \<lparr>dtype = Float64, cells = []\<rparr>"
    by (simp add: g prepared_column_def stage4_def raw n MONEY_COLS_def money_series_def
          fillna_def to_numeric_def)
  have cost: "getitem d ''Custo Total Mensal'' = Some \<lparr>dtype = Float64, cells = []\<rparr>"
    by (simp add: g prepared_column_def n sum_axis1_def MONEY_COLS_def add_column_def)
  have aval: "getitem d AVALIACAO = None"
    by (simp add: g prepared_column_def stage4_def raw AVALIACAO_def DATE_COLS_def MONEY_COLS_def)
  show ?thesis
    using d idade status sal cost aval
    by (simp add: k_idade_media_def k_headcount_ativo_def k_desligados_def k_folha_def
          k_custo_total_def k_avaliacao_media_def series_mean_def series_sum_def loc_def
          eq_mask_def mask_sum_def)
qed

text \<open>
  On every table of zero records the two counts and the two sums are 0; each of the two
  means is 0 only when its column is absent, and NaN otherwise.
\<close>

lemma indicators_on_empty_table:
  assumes "wf_df df" and "index_len df = 0" and "prepare_df L today df = Inr d"
  shows "k_headcount_ativo d = Inr 0 \<and> k_desligados d = Inr 0 \<and> k_folha d = Inr 0 \<and>
         k_custo_total d = Inr 0 \<and>
         k_idade_media d =
           (if has_column df ''Data de Nascimento'' \<or> has_column df ''Idade''
            then Inr None else Inr (Some 0)) \<and>
         k_avaliacao_media d = (if has_column df AVALIACAO then Inr None else Inr (Some 0))"
proof -
  note g = getitem_prepare_df [OF assms(1,3)]
  have empty: "cells s = []" if "getitem df c = Some s" for c s
    using wf_df_length [OF assms(1) that] assms(2) by simp
  from status_column_prepared [OF assms(1,3)] assms(2) obtain st where
    st: "getitem d ''Status'' = Some st" "cells st = []"
    by auto
  have mem: "''Salario Base'' \<in> set MONEY_COLS" by (simp add: MONEY_COLS_def)
  from money_column_prepared(1,2) [OF assms(1,3) mem] assms(2) obtain sal where
    sal: "getitem d ''Salario Base'' = Some sal" "cells sal = []"
    by auto
  have "getitem d ''Custo Total Mensal'' =
          Some (sum_axis1 0 (map (\<lambda>m. money_series L 0 (map_option (trimmed L) (getitem df m))) MONEY_COLS))"
    by (simp add: g prepared_column_def assms(2))
  moreover have "cells (sum_axis1 0 ss) = []" for ss
  proof -
    have "foldl add_column [] ss = []"
      by (induction ss) (simp_all add: add_column_def)
    then show ?thesis by (simp add: sum_axis1_def)
  qed
  ultimately obtain cost where
    cost: "getitem d ''Custo Total Mensal'' = Some cost" "cells cost = []"
    by blast
  have idade: "k_idade_media d =
           (if has_column df ''Data de Nascimento'' \<or> has_column df ''Idade''
            then Inr None else Inr (Some 0))"
  proof (cases "getitem df ''Data de Nascimento''")
    case (Some raw)
    have mem: "''Data de Nascimento'' \<in> set DATE_COLS" by (simp add: DATE_COLS_def)
    have "getitem d ''Idade'' =
        Some \<lparr>dtype = Float64, cells = map (idade_cell today) (cells (to_datetime L (trimmed L raw)))\<rparr>"
      by (simp add: g prepared_column_def stage4_date [OF mem] Some)
    moreover have "cells (to_datetime L (trimmed L raw)) = []"
      using empty [OF Some] by (simp add: to_datetime_def trimmed_def trim_series_def)
    ultimately show ?thesis
      using Some by (simp add: k_idade_media_def series_mean_def has_column_getitem)
  next
    case None
    have eq: "getitem d ''Idade'' = map_option (trimmed L) (getitem df ''Idade'')"
      by (simp add: g prepared_column_def stage4_def None DATE_COLS_def MONEY_COLS_def)
    show ?thesis
    proof (cases "getitem df ''Idade''")
      case None': None
      with None eq show ?thesis
        by (simp add: k_idade_media_def has_column_getitem)
    next
      case (Some s)
      then have "cells (trimmed L s) = []"
        using empty [OF Some] by (simp add: trimmed_def trim_series_def)
      with None eq Some show ?thesis
        by (simp add: k_idade_media_def series_mean_def has_column_getitem)
    qed
  qed
  have av: "AVALIACAO \<notin> set (''Sexo'' # DATE_COLS @ MONEY_COLS)"
    "AVALIACAO \<notin> {''Idade'', ''Tempo de Casa (meses)'', ''Status'', ''Custo Total Mensal''}"
    by (simp_all add: AVALIACAO_def DATE_COLS_def MONEY_COLS_def)
  have aval: "k_avaliacao_media d = (if has_column df AVALIACAO then Inr None else Inr (Some 0))"
  proof (cases "getitem df AVALIACAO")
    case None
    then have "getitem d AVALIACAO = None"
      using av by (simp add: g prepared_column_def stage4_def)
    with None show ?thesis
      by (simp add: k_avaliacao_media_def has_column_getitem)
  next
    case (Some s)
    have "getitem d AVALIACAO = Some (if dtype s = Object then trim_series L s else s)"
      using av by (simp add: g prepared_column_def stage4_def trimmed_def Some)
    moreover have "cells (if dtype s = Object then trim_series L s else s) = []"
      using empty [OF Some] by (simp add: trim_series_def)
    ultimately show ?thesis
      using Some by (simp add: k_avaliacao_media_def series_mean_def has_column_getitem)
  qed
  show ?thesis
    using st sal cost idade aval
    by (simp add: k_headcount_ativo_def k_desligados_def k_folha_def k_custo_total_def
          series_sum_def loc_def eq_mask_def mask_sum_def)
qed

end
